theory Spec2Isabelle
  imports Main "HOL-Library.AList"
begin

section \<open>Go strings\<close>

text \<open>
  A Go \<^verbatim>\<open>string\<close> is a sequence of bytes, here a \<^typ>\<open>string\<close> (a list of 8-bit
  characters). The functions of this section model the parts of Go's standard library
  (\<^verbatim>\<open>strings\<close>, \<^verbatim>\<open>path\<close>, \<^verbatim>\<open>strconv\<close>) that the import pipeline calls.
\<close>

text \<open>\<^verbatim>\<open>strings.HasPrefix(s, prefix)\<close>:
  \<^verbatim>\<open>len(s) >= len(prefix) && s[0:len(prefix)] == prefix\<close>.\<close>

definition HasPrefix :: "string \<Rightarrow> string \<Rightarrow> bool" where
  "HasPrefix s p = (length p \<le> length s \<and> take (length p) s = p)"

text \<open>\<^verbatim>\<open>strings.Contains(s, substr)\<close>: \<^verbatim>\<open>substr\<close> occurs at some position of \<^verbatim>\<open>s\<close>.\<close>

fun Contains :: "string \<Rightarrow> string \<Rightarrow> bool" where
  "Contains [] sub = (sub = [])"
| "Contains (c # cs) sub = (HasPrefix (c # cs) sub \<or> Contains cs sub)"

text \<open>
  \<^verbatim>\<open>strings.ReplaceAll(s, old, new)\<close>: every non-overlapping occurrence of \<^verbatim>\<open>old\<close>,
  found from left to right, is replaced by \<^verbatim>\<open>new\<close>. For the empty \<^verbatim>\<open>old\<close> Go inserts
  \<^verbatim>\<open>new\<close> before every UTF-8 sequence and at the end; the last equation is that rule
  for one-byte sequences (the pipeline only ever passes the constant \<^verbatim>\<open>{version}\<close>).
\<close>

fun ReplaceAll :: "string \<Rightarrow> string \<Rightarrow> string \<Rightarrow> string" where
  "ReplaceAll [] (a # old) new = []"
| "ReplaceAll (c # cs) (a # old) new =
     (if HasPrefix (c # cs) (a # old)
      then new @ ReplaceAll (drop (length old) cs) (a # old) new
      else c # ReplaceAll cs (a # old) new)"
| "ReplaceAll s [] new = new @ concat (map (\<lambda>c. c # new) s)"

subsection \<open>Whitespace and \<^verbatim>\<open>strings.TrimSpace\<close>\<close>

text \<open>
  The UTF-8 encodings of the code points for which \<^verbatim>\<open>unicode.IsSpace\<close> holds:
  tab, line feed, vertical tab, form feed, carriage return, space, U+0085, U+00A0,
  U+1680, U+2000 to U+200A, U+2028, U+2029, U+202F, U+205F and U+3000.
\<close>

definition spaceRunes :: "string list" where
  "spaceRunes =
     [[CHR 0x09], [CHR 0x0A], [CHR 0x0B], [CHR 0x0C], [CHR 0x0D], [CHR 0x20],
      [CHR 0xC2, CHR 0x85], [CHR 0xC2, CHR 0xA0],
      [CHR 0xE1, CHR 0x9A, CHR 0x80],
      [CHR 0xE2, CHR 0x80, CHR 0x80], [CHR 0xE2, CHR 0x80, CHR 0x81],
      [CHR 0xE2, CHR 0x80, CHR 0x82], [CHR 0xE2, CHR 0x80, CHR 0x83],
      [CHR 0xE2, CHR 0x80, CHR 0x84], [CHR 0xE2, CHR 0x80, CHR 0x85],
      [CHR 0xE2, CHR 0x80, CHR 0x86], [CHR 0xE2, CHR 0x80, CHR 0x87],
      [CHR 0xE2, CHR 0x80, CHR 0x88], [CHR 0xE2, CHR 0x80, CHR 0x89],
      [CHR 0xE2, CHR 0x80, CHR 0x8A],
      [CHR 0xE2, CHR 0x80, CHR 0xA8], [CHR 0xE2, CHR 0x80, CHR 0xA9],
      [CHR 0xE2, CHR 0x80, CHR 0xAF],
      [CHR 0xE2, CHR 0x81, CHR 0x9F],
      [CHR 0xE3, CHR 0x80, CHR 0x80]]"

text \<open>The rest of \<open>s\<close> after the first sequence of \<open>qs\<close> that \<open>s\<close> starts with.\<close>

fun stripAny :: "string list \<Rightarrow> string \<Rightarrow> string option" where
  "stripAny [] s = None"
| "stripAny (q # qs) s =
     (if q \<noteq> [] \<and> HasPrefix s q then Some (drop (length q) s) else stripAny qs s)"

lemma stripAny_shorter: "stripAny qs s = Some r \<Longrightarrow> length r < length s"
proof (induction qs)
  case Nil
  then show ?case by simp
next
  case (Cons q qs)
  show ?case
  proof (cases "q \<noteq> [] \<and> HasPrefix s q")
    case True
    then have "0 < length q" and "length q \<le> length s"
      by (simp_all add: HasPrefix_def)
    moreover from True Cons.prems have "r = drop (length q) s"
      by simp
    moreover have "0 < n \<Longrightarrow> n \<le> m \<Longrightarrow> m - n < m" for m n :: nat
      by arith
    ultimately show ?thesis
      by (simp del: length_greater_0_conv)
  next
    case False
    with Cons show ?thesis by auto
  qed
qed

text \<open>\<^verbatim>\<open>strings.TrimLeftFunc\<close> for a set of runes given by their encodings.\<close>

function trimLeftRunes :: "string list \<Rightarrow> string \<Rightarrow> string" where
  "trimLeftRunes qs s =
     (case stripAny qs s of Some r \<Rightarrow> trimLeftRunes qs r | None \<Rightarrow> s)"
  by pat_completeness auto
termination
  by (relation "measure (\<lambda>(qs, s). length s)") (auto simp: stripAny_shorter)

declare trimLeftRunes.simps [simp del]

text \<open>
  \<^verbatim>\<open>strings.TrimSpace(s)\<close>: the whitespace runes are removed from the left, then from
  the right. Reading the last rune of a string is reading its reversed encoding at the
  head of the reversed string.
\<close>

definition TrimSpace :: "string \<Rightarrow> string" where
  "TrimSpace s = rev (trimLeftRunes (map rev spaceRunes) (rev (trimLeftRunes spaceRunes s)))"

subsection \<open>\<^verbatim>\<open>path.Clean\<close>\<close>

text \<open>
  \<^verbatim>\<open>path.Clean\<close> reads the path from left to right and writes the cleaned path into
  a buffer. \<open>out\<close> is the buffer written so far (\<^verbatim>\<open>out.w\<close> is its length) and
  \<open>dotdot\<close> the index where a \<^verbatim>\<open>..\<close> element must stop backtracking.
\<close>

text \<open>
  \<^verbatim>\<open>out.w--; for out.w > dotdot && out.index(out.w) != '/' { out.w-- }\<close>, started at
  \<open>w = out.w - 1\<close>.
\<close>

fun backtrack :: "string \<Rightarrow> nat \<Rightarrow> nat \<Rightarrow> nat" where
  "backtrack out dotdot 0 = 0"
| "backtrack out dotdot (Suc w) =
     (if Suc w > dotdot \<and> out ! Suc w \<noteq> CHR ''/'' then backtrack out dotdot w else Suc w)"

text \<open>\<^verbatim>\<open>r+k == n || path[r+k] == '/'\<close> for the unread rest from \<open>r+k\<close>.\<close>

definition endOrSlash :: "string \<Rightarrow> bool" where
  "endOrSlash rest = (case rest of [] \<Rightarrow> True | d # _ \<Rightarrow> d = CHR ''/'')"

function cleanLoop :: "bool \<Rightarrow> string \<Rightarrow> string \<Rightarrow> nat \<Rightarrow> string" where
  "cleanLoop rooted [] out dotdot = out"
| "cleanLoop rooted (c # rest) out dotdot =
     (if c = CHR ''/'' then cleanLoop rooted rest out dotdot
      else if c = CHR ''.'' \<and> endOrSlash rest then cleanLoop rooted rest out dotdot
      else if c = CHR ''.'' \<and> (case rest of [] \<Rightarrow> False | d # rest2 \<Rightarrow> d = CHR ''.'' \<and> endOrSlash rest2)
      then
        (if length out > dotdot
         then cleanLoop rooted (tl rest) (take (backtrack out dotdot (length out - 1)) out) dotdot
         else if \<not> rooted
         then (let out' = (if length out > 0 then out @ ''/'' else out) @ ''..''
               in cleanLoop rooted (tl rest) out' (length out'))
         else cleanLoop rooted (tl rest) out dotdot)
      else
        (let out' = (if rooted \<and> length out \<noteq> 1 \<or> \<not> rooted \<and> length out \<noteq> 0
                     then out @ ''/'' else out)
         in cleanLoop rooted (dropWhile (\<lambda>x. x \<noteq> CHR ''/'') rest)
              (out' @ c # takeWhile (\<lambda>x. x \<noteq> CHR ''/'') rest) dotdot))"
  by pat_completeness auto
termination
  by (relation "measure (\<lambda>(rooted, p, out, dotdot). length p)")
     (auto simp: le_imp_less_Suc length_dropWhile_le)

definition Clean :: "string \<Rightarrow> string" where
  "Clean p =
     (case p of
        [] \<Rightarrow> ''.''
      | c # cs \<Rightarrow>
          (let rooted = (c = CHR ''/'');
               out = (if rooted then cleanLoop rooted cs ''/'' 1 else cleanLoop rooted p [] 0)
           in if length out = 0 then ''.'' else out))"

section \<open>Errors\<close>

text \<open>
  A Go \<^verbatim>\<open>error\<close> value: \<open>Error msg\<close> for \<^verbatim>\<open>errors.New(msg)\<close> and
  \<^verbatim>\<open>fmt.Errorf\<close>, \<open>NumError fn input\<close> for the \<^verbatim>\<open>*strconv.NumError\<close> of a failed
  conversion, \<open>ErrNotObj\<close> and \<open>ErrPathCollision\<close> for the gabs errors of these
  names, \<open>Panic msg\<close> for a run-time panic. A function that returns \<^verbatim>\<open>error\<close> returns \<open>error option\<close>, with
  \<open>None\<close> for \<^verbatim>\<open>nil\<close>.
\<close>

datatype error =
  Error string
| NumError string string
| ErrNotObj
| ErrPathCollision
| Panic string

section \<open>The typed view of a definition\<close>

text \<open>
  The fields of \<^verbatim>\<open>v2.APIDefinition\<close> and \<^verbatim>\<open>v2.APIProductDefinition\<close> that the
  pipeline reads or writes. The other fields of the Go structs live in the extension
  slot of the records, which every function below leaves alone. A \<^verbatim>\<open>nil\<close> slice is
  \<open>None\<close>. \<open>'u\<close> stands for \<^verbatim>\<open>v2.URITemplates\<close>.
\<close>

record ID =
  ProviderName :: string
  APIName :: string
  Version :: string

record 'u APIDefinition =
  ID :: ID
  Context :: string
  ContextTemplate :: string
  Tags :: "string list option"
  URITemplates :: "'u list option"
  Implementation :: string

record ProductID =
  ProductProviderName :: string
  APIProductName :: string
  ProductVersion :: string

record APIProductDefinition =
  ProductID :: ProductID
  ProductContext :: string
  ProductContextTemplate :: string
  ProductTags :: "string list option"

section \<open>Defaults\<close>

text \<open>
  \<^verbatim>\<open>populateApiWithDefaults\<close> mutates the definition in place and returns the dirty
  flag; the model returns the flag and the definition after the call. Each \<^verbatim>\<open>if\<close> of
  the source is one step of the chain.
\<close>

definition populateApiWithDefaults ::
  "('u, 'z) APIDefinition_scheme \<Rightarrow> bool \<times> ('u, 'z) APIDefinition_scheme" where
  "populateApiWithDefaults def0 =
     (let (dirty, def) = (False, def0);
          (dirty, def) =
            (if ContextTemplate def = []
             then
               (let def =
                  (if \<not> Contains (Context def) ''{version}''
                   then
                     (let def = def\<lparr>ContextTemplate := Clean (Context def @ ''/{version}'')\<rparr>
                      in def\<lparr>Context := ReplaceAll (ContextTemplate def) ''{version}'' (Version (ID def))\<rparr>)
                   else
                     (let def = def\<lparr>Context := Clean (Context def)\<rparr>;
                          def = def\<lparr>ContextTemplate := Context def\<rparr>
                      in def\<lparr>Context := ReplaceAll (Context def) ''{version}'' (Version (ID def))\<rparr>))
                in (True, def))
             else (dirty, def));
          (dirty, def) = (if Tags def = None then (True, def\<lparr>Tags := Some []\<rparr>) else (dirty, def));
          (dirty, def) =
            (if URITemplates def = None then (True, def\<lparr>URITemplates := Some []\<rparr>) else (dirty, def));
          (dirty, def) =
            (if Implementation def = [] then (True, def\<lparr>Implementation := ''ENDPOINT''\<rparr>)
             else (dirty, def))
      in (dirty, def))"

definition populateApiProductWithDefaults ::
  "'z APIProductDefinition_scheme \<Rightarrow> bool \<times> 'z APIProductDefinition_scheme" where
  "populateApiProductWithDefaults def0 =
     (let (dirty, def) = (False, def0);
          (dirty, def) =
            (if ProductContextTemplate def = []
             then
               (let def =
                  (if \<not> Contains (ProductContext def) ''{version}''
                   then
                     (let def = def\<lparr>ProductContextTemplate := Clean (ProductContext def @ ''/{version}'')\<rparr>
                      in def\<lparr>ProductContext :=
                           ReplaceAll (ProductContextTemplate def) ''{version}''
                             (ProductVersion (ProductID def))\<rparr>)
                   else
                     (let def = def\<lparr>ProductContext := Clean (ProductContext def)\<rparr>;
                          def = def\<lparr>ProductContextTemplate := ProductContext def\<rparr>
                      in def\<lparr>ProductContext :=
                           ReplaceAll (ProductContext def) ''{version}''
                             (ProductVersion (ProductID def))\<rparr>))
                in (True, def))
             else (dirty, def));
          (dirty, def) =
            (if ProductTags def = None then (True, def\<lparr>ProductTags := Some []\<rparr>) else (dirty, def))
      in (dirty, def))"

section \<open>Validation\<close>

text \<open>\<^verbatim>\<open>isEmpty\<close>: \<^verbatim>\<open>len(strings.TrimSpace(s)) == 0\<close>.\<close>

definition isEmpty :: "string \<Rightarrow> bool" where
  "isEmpty s = (length (TrimSpace s) = 0)"

text \<open>
  The character class of \<^verbatim>\<open>reApiName\<close> and \<^verbatim>\<open>reApiProductName\<close>: the
  characters between the square brackets of the pattern, where the escaped backslash of
  the pattern is the one character backslash. \<^verbatim>\<open>MatchString\<close> holds when some character
  of the name is in the class.
\<close>

definition illegalChars :: "char list" where
  "illegalChars = ''~!@#;:%^*()+={}|'' @ [CHR 0x5C] @ ''<>'' @ [CHR 0x22, CHR 0x27] @ '',&/$''"

definition reApiName_MatchString :: "string \<Rightarrow> bool" where
  "reApiName_MatchString s = (\<exists>c \<in> set s. c \<in> set illegalChars)"

definition reApiProductName_MatchString :: "string \<Rightarrow> bool" where
  "reApiProductName_MatchString s = (\<exists>c \<in> set s. c \<in> set illegalChars)"

text \<open>The text in parentheses at the end of the illegal-characters messages.\<close>

definition illegalCharsText :: string where
  "illegalCharsText =
     ''(~!@#;:%^*()+={}|'' @ [CHR 0x5C, CHR 0x5C] @ ''<>'' @ [CHR 0x22, CHR 0x27] @ '',&''
       @ [CHR 0x5C] @ ''/$)''"

definition validateApiDefinition :: "('u, 'z) APIDefinition_scheme \<Rightarrow> error option" where
  "validateApiDefinition def =
     (if isEmpty (APIName (ID def)) then Some (Error ''apiName is required'')
      else if reApiName_MatchString (APIName (ID def))
      then Some (Error (''apiName contains one or more illegal characters '' @ illegalCharsText))
      else if isEmpty (Version (ID def)) then Some (Error ''version is required'')
      else if isEmpty (Context def) then Some (Error ''context is required'')
      else if isEmpty (ContextTemplate def) then Some (Error ''contextTemplate is required'')
      else if \<not> HasPrefix (Context def) ''/'' then Some (Error ''context should begin with a /'')
      else if \<not> HasPrefix (ContextTemplate def) ''/''
      then Some (Error ''contextTemplate should begin with a /'')
      else None)"

definition validateApiProductDefinition :: "'z APIProductDefinition_scheme \<Rightarrow> error option" where
  "validateApiProductDefinition def =
     (if isEmpty (APIProductName (ProductID def)) then Some (Error ''apiProductName is required'')
      else if reApiProductName_MatchString (APIProductName (ProductID def))
      then Some (Error (''apiProductName contains one or more illegal characters ''
                        @ illegalCharsText))
      else if isEmpty (ProductVersion (ProductID def)) then Some (Error ''version is required'')
      else if isEmpty (ProductContext def) then Some (Error ''context is required'')
      else if isEmpty (ProductContextTemplate def) then Some (Error ''contextTemplate is required'')
      else if \<not> HasPrefix (ProductContext def) ''/''
      then Some (Error ''context should begin with a /'')
      else if \<not> HasPrefix (ProductContextTemplate def) ''/''
      then Some (Error ''contextTemplate should begin with a /'')
      else None)"

subsection \<open>The validation rules as an ordered list\<close>

text \<open>
  The rules of the specification, in the order it numbers them: each rule is the
  condition that must hold and the failure reported when it does not.
  \<open>firstFailure\<close> reports the failure of the first rule that does not hold.
\<close>

fun firstFailure :: "(bool \<times> error) list \<Rightarrow> error option" where
  "firstFailure [] = None"
| "firstFailure ((ok, e) # rules) = (if ok then firstFailure rules else Some e)"

definition apiRules :: "('u, 'z) APIDefinition_scheme \<Rightarrow> (bool \<times> error) list" where
  "apiRules def =
     [(\<not> isEmpty (APIName (ID def)), Error ''apiName is required''),
      (\<not> reApiName_MatchString (APIName (ID def)),
       Error (''apiName contains one or more illegal characters '' @ illegalCharsText)),
      (\<not> isEmpty (Version (ID def)), Error ''version is required''),
      (\<not> isEmpty (Context def), Error ''context is required''),
      (\<not> isEmpty (ContextTemplate def), Error ''contextTemplate is required''),
      (HasPrefix (Context def) ''/'', Error ''context should begin with a /''),
      (HasPrefix (ContextTemplate def) ''/'', Error ''contextTemplate should begin with a /'')]"

definition apiProductRules :: "'z APIProductDefinition_scheme \<Rightarrow> (bool \<times> error) list" where
  "apiProductRules def =
     [(\<not> isEmpty (APIProductName (ProductID def)), Error ''apiProductName is required''),
      (\<not> reApiProductName_MatchString (APIProductName (ProductID def)),
       Error (''apiProductName contains one or more illegal characters '' @ illegalCharsText)),
      (\<not> isEmpty (ProductVersion (ProductID def)), Error ''version is required''),
      (\<not> isEmpty (ProductContext def), Error ''context is required''),
      (\<not> isEmpty (ProductContextTemplate def), Error ''contextTemplate is required''),
      (HasPrefix (ProductContext def) ''/'', Error ''context should begin with a /''),
      (HasPrefix (ProductContextTemplate def) ''/'',
       Error ''contextTemplate should begin with a /'')]"

section \<open>The generic document\<close>

text \<open>
  The generic view of a definition is a decoded JSON document held in a gabs container:
  \<^verbatim>\<open>nil\<close>, a boolean, a number, a string, a slice, or a \<^verbatim>\<open>map[string]interface{}\<close>.
  An object is an association list read with \<^const>\<open>map_of\<close> and written with
  \<^const>\<open>AList.update\<close>, which replaces the value of a key that is present and adds
  the key otherwise, as an assignment to a Go map does.
\<close>

datatype json =
  JNull
| JBool bool
| JNum int
| JStr string
| JArr "json list"
| JObj "(string \<times> json) list"

text \<open>\<^verbatim>\<open>strings.Split(s, ".")\<close>: the fields of \<open>s\<close> between the dots.\<close>

fun SplitDot :: "string \<Rightarrow> string list" where
  "SplitDot [] = [[]]"
| "SplitDot (c # cs) =
     (if c = CHR ''.'' then [] # SplitDot cs
      else (case SplitDot cs of [] \<Rightarrow> [[c]] | f # fs \<Rightarrow> (c # f) # fs))"

subsection \<open>The gabs container\<close>

text \<open>
  The source imports \<^verbatim>\<open>github.com/Jeffail/gabs\<close>, version 1 of the library; the
  functions of this subsection model the methods of its container that the pipeline
  calls.
\<close>

text \<open>
  \<^verbatim>\<open>Container.Set(value, path...)\<close>. The container is changed in place; the model
  returns the document after the call. With an empty path the value replaces the
  document. Otherwise the path is followed through maps: a \<^verbatim>\<open>nil\<close> document or child
  becomes an empty map, the last key is assigned, and anything else on the way that is
  not a map is \<^verbatim>\<open>ErrPathCollision\<close>. A call that fails has changed nothing.
\<close>

fun gabs_Set :: "json \<Rightarrow> json \<Rightarrow> string list \<Rightarrow> error + json" where
  "gabs_Set g v [] = Inr v"
| "gabs_Set g v (k # ks) =
     (case (if g = JNull then JObj [] else g) of
        JObj kvs \<Rightarrow>
          (case gabs_Set (case map_of kvs k of None \<Rightarrow> JNull | Some child \<Rightarrow> child) v ks of
             Inl err \<Rightarrow> Inl err
           | Inr child' \<Rightarrow> Inr (JObj (AList.update k child' kvs)))
      | _ \<Rightarrow> Inl ErrPathCollision)"

definition gabs_SetP :: "json \<Rightarrow> json \<Rightarrow> string \<Rightarrow> error + json" where
  "gabs_SetP g v path = gabs_Set g v (SplitDot path)"

text \<open>
  \<^verbatim>\<open>Container.Search(hierarchy...)\<close>; \<open>None\<close> is the \<^verbatim>\<open>nil\<close> container. In a map the
  next key is looked up; in an array every element is searched for the rest of the
  hierarchy and the results that were found are collected.
\<close>

fun gabs_Search :: "json \<Rightarrow> string list \<Rightarrow> json option" where
  "gabs_Search g [] = Some g"
| "gabs_Search (JObj kvs) (k # ks) =
     (case map_of kvs k of None \<Rightarrow> None | Some child \<Rightarrow> gabs_Search child ks)"
| "gabs_Search (JArr vs) (k # ks) =
     (let tmpArray =
        concat (map (\<lambda>val. case gabs_Search val (k # ks) of None \<Rightarrow> [] | Some res \<Rightarrow> [res]) vs)
      in if length tmpArray = 0 then None else Some (JArr tmpArray))"
| "gabs_Search g (k # ks) = None"

text \<open>\<^verbatim>\<open>Container.Exists(hierarchy...)\<close>: the search finds a container.\<close>

definition gabs_Exists :: "json \<Rightarrow> string list \<Rightarrow> bool" where
  "gabs_Exists g hierarchy = (gabs_Search g hierarchy \<noteq> None)"

text \<open>\<^verbatim>\<open>Container.Path(path).Data()\<close>: the data of a \<^verbatim>\<open>nil\<close> container is \<^verbatim>\<open>nil\<close>.\<close>

definition gabs_Path_Data :: "json \<Rightarrow> string \<Rightarrow> json" where
  "gabs_Path_Data g path = (case gabs_Search g (SplitDot path) of None \<Rightarrow> JNull | Some v \<Rightarrow> v)"

text \<open>
  \<^verbatim>\<open>Container.Delete(path...)\<close>: the last key is deleted from the map the path leads
  to; a missing key, or anything on the way that is not a map, is \<^verbatim>\<open>ErrNotObj\<close>.
\<close>

fun gabs_Delete :: "json \<Rightarrow> string list \<Rightarrow> error option \<times> json" where
  "gabs_Delete g [] = (if g = JNull then Some ErrNotObj else None, g)"
| "gabs_Delete g [k] =
     (case g of
        JObj kvs \<Rightarrow>
          (if map_of kvs k \<noteq> None then (None, JObj (AList.delete k kvs)) else (Some ErrNotObj, g))
      | _ \<Rightarrow> (Some ErrNotObj, g))"
| "gabs_Delete g (k # ks) =
     (case g of
        JObj kvs \<Rightarrow>
          (case gabs_Delete (case map_of kvs k of None \<Rightarrow> JNull | Some child \<Rightarrow> child) ks of
             (Some err, _) \<Rightarrow> (Some err, g)
           | (None, child') \<Rightarrow> (None, JObj (AList.update k child' kvs)))
      | _ \<Rightarrow> (Some ErrNotObj, g))"

section \<open>Security parameters\<close>

text \<open>
  \<^verbatim>\<open>strconv.ParseBool\<close> accepts exactly twelve spellings; anything else is a syntax
  error.
\<close>

definition ParseBool :: "string \<Rightarrow> error + bool" where
  "ParseBool str =
     (if str \<in> set [''1'', ''t'', ''T'', ''true'', ''TRUE'', ''True''] then Inr True
      else if str \<in> set [''0'', ''f'', ''F'', ''false'', ''FALSE'', ''False''] then Inr False
      else Inl (NumError ''ParseBool'' str))"

text \<open>
  \<^verbatim>\<open>params.SecurityData\<close>, the security block of an environment in the parameters
  file. \<open>Enabled\<close> is a string, so that a field that is not set (the empty string) differs
  from \<^verbatim>\<open>false\<close>.
\<close>

record SecurityData =
  Enabled :: string
  Username :: string
  Password :: string
  Type :: string

text \<open>
  The three functions below change the container \<open>api\<close> in place and return an error;
  the models return the error and the container after the call.
\<close>

definition setEndpointSecurityType :: "SecurityData \<Rightarrow> json \<Rightarrow> error option \<times> json" where
  "setEndpointSecurityType envSecurityEndpointParams api =
     (if Type envSecurityEndpointParams = ''digest''
      then (case gabs_SetP api (JBool True) ''endpointAuthDigest'' of
              Inl err \<Rightarrow> (Some err, api)
            | Inr api \<Rightarrow> (None, api))
      else if Type envSecurityEndpointParams = ''basic''
      then (case gabs_SetP api (JBool False) ''endpointAuthDigest'' of
              Inl err \<Rightarrow> (Some err, api)
            | Inr api \<Rightarrow> (None, api))
      else (Some (Error (''Invalid endpoint security type found in the api_params.yaml. ''
                         @ ''Should be either basic or digest'')), api))"

definition setSecurityEndpointsParams :: "SecurityData \<Rightarrow> json \<Rightarrow> error option \<times> json" where
  "setSecurityEndpointsParams envSecurityEndpointParams api =
     (if Username envSecurityEndpointParams = []
      then (Some (Error (''You have enabled endpoint security but the username is not found ''
                         @ ''in the api_params.yaml'')), api)
      else if Password envSecurityEndpointParams = []
      then (Some (Error (''You have enabled endpoint security but the password is not found ''
                         @ ''in the api_params.yaml'')), api)
      else if Type envSecurityEndpointParams = []
      then (Some (Error (''You have enabled endpoint security but the type is not found ''
                         @ ''in the api_params.yaml'')), api)
      else
        (case gabs_SetP api (JStr (Username envSecurityEndpointParams)) ''endpointUTUsername'' of
           Inl err \<Rightarrow> (Some err, api)
         | Inr api \<Rightarrow>
             (case gabs_SetP api (JStr (Password envSecurityEndpointParams)) ''endpointUTPassword'' of
                Inl err \<Rightarrow> (Some err, api)
              | Inr api \<Rightarrow> setEndpointSecurityType envSecurityEndpointParams api)))"

definition handleSecurityEndpointsParams ::
  "SecurityData option \<Rightarrow> json \<Rightarrow> error option \<times> json" where
  "handleSecurityEndpointsParams envSecurityEndpointParams api =
     (case envSecurityEndpointParams of
        None \<Rightarrow> (None, api)
      | Some p \<Rightarrow>
          (if Enabled p \<noteq> []
           then
             (case ParseBool (Enabled p) of
                Inl err \<Rightarrow> (Some err, api)
              | Inr boolEnabled \<Rightarrow>
                  (case gabs_SetP api (JBool boolEnabled) ''endpointSecured'' of
                     Inl err \<Rightarrow> (Some err, api)
                   | Inr api \<Rightarrow>
                       (if boolEnabled
                        then setSecurityEndpointsParams p api
                        else
                          (case gabs_SetP api (JStr []) ''endpointUTUsername'' of
                             Inl err \<Rightarrow> (Some err, api)
                           | Inr api \<Rightarrow>
                               (case gabs_SetP api (JStr []) ''endpointUTPassword'' of
                                  Inl err \<Rightarrow> (Some err, api)
                                | Inr api \<Rightarrow> (None, api))))))
           else (None, api)))"

text \<open>
  The map a container holds when \<^verbatim>\<open>Set\<close> follows a path through it: the map itself,
  or the empty map that replaces \<^verbatim>\<open>nil\<close>.
\<close>

definition asMap :: "json \<Rightarrow> (string \<times> json) list option" where
  "asMap g = (case g of JNull \<Rightarrow> Some [] | JObj kvs \<Rightarrow> Some kvs | _ \<Rightarrow> None)"

section \<open>Files and collaborators\<close>

text \<open>
  The file system of a run: a path leads to a directory, to a regular file with its
  bytes, or to nothing. \<open>readFails\<close> and \<open>writeFails\<close> stand for the errors the operating
  system may answer when a file is opened (permissions, a missing parent directory), and
  \<open>writeBreaks\<close> for a write that fails after the file was opened (a full disk, an
  input/output error), with the number of bytes that reached the file: the pipeline has no
  say in them, so they are part of the world it runs in.
\<close>

datatype node = Dir | File string

record world =
  files :: "string \<Rightarrow> node option"
  readFails :: "string \<Rightarrow> bool"
  writeFails :: "string \<Rightarrow> bool"
  writeBreaks :: "string \<Rightarrow> nat option"

text \<open>\<^verbatim>\<open>info, err := os.Stat(p); err == nil && !info.IsDir()\<close>.\<close>

definition isRegularFile :: "'w world_scheme \<Rightarrow> string \<Rightarrow> bool" where
  "isRegularFile w p = (case files w p of Some (File _) \<Rightarrow> True | _ \<Rightarrow> False)"

definition ReadFile :: "'w world_scheme \<Rightarrow> string \<Rightarrow> error + string" where
  "ReadFile w p =
     (case files w p of
        Some (File content) \<Rightarrow>
          (if readFails w p then Inl (Error (''open '' @ p @ '': permission denied''))
           else Inr content)
      | Some Dir \<Rightarrow> Inl (Error (''read '' @ p @ '': is a directory''))
      | None \<Rightarrow> Inl (Error (''open '' @ p @ '': no such file or directory'')))"

text \<open>
  \<^verbatim>\<open>ioutil.WriteFile\<close> opens the file with \<^verbatim>\<open>O_WRONLY|O_CREATE|O_TRUNC\<close>, writes
  the data and closes the file. When the file cannot be opened nothing has changed. Once
  it is open its old content is gone: a write that breaks returns its error and leaves
  the file with the bytes that were written.
\<close>

definition WriteFile :: "'w world_scheme \<Rightarrow> string \<Rightarrow> string \<Rightarrow> error option \<times> 'w world_scheme" where
  "WriteFile w p content =
     (if files w p = Some Dir then (Some (Error (''open '' @ p @ '': is a directory'')), w)
      else if writeFails w p then (Some (Error (''open '' @ p @ '': permission denied'')), w)
      else
        (case writeBreaks w p of
           Some n \<Rightarrow>
             (Some (Error (''write '' @ p @ '': no space left on device'')),
              w\<lparr>files := (files w)(p \<mapsto> File (take n content))\<rparr>)
         | None \<Rightarrow> (None, w\<lparr>files := (files w)(p \<mapsto> File content)\<rparr>)))"

text \<open>\<^verbatim>\<open>strings.Join(elems, sep)\<close>.\<close>

fun strings_Join :: "string list \<Rightarrow> string \<Rightarrow> string" where
  "strings_Join [] sep = []"
| "strings_Join [e] sep = e"
| "strings_Join (e # es) sep = e @ sep @ strings_Join es sep"

text \<open>\<^verbatim>\<open>fmt.Println\<close> of its arguments, separated by spaces.\<close>

definition Println :: "string list \<Rightarrow> string" where
  "Println args = strings_Join args '' '' @ [CHR 0x0A]"

text \<open>
  \<^verbatim>\<open>filepath.Join\<close> (on Unix, where \<^verbatim>\<open>filepath.Clean\<close> is \<^verbatim>\<open>path.Clean\<close>): the
  elements from the first non-empty one on are joined with slashes and the result is
  cleaned.
\<close>

fun Join :: "string list \<Rightarrow> string" where
  "Join [] = []"
| "Join (e # es) = (if e \<noteq> [] then Clean (strings_Join (e # es) ''/'') else Join es)"

text \<open>
  The functions of this repository that are not among the source files, and the library
  functions that work on raw bytes, are parameters of the model: the properties below
  hold whatever they compute. \<open>ParseJSON\<close> is \<^verbatim>\<open>gabs.ParseJSON\<close>, \<open>Bytes\<close> the JSON
  encoding of a container (\<^verbatim>\<open>Container.Bytes\<close>, and \<^verbatim>\<open>Container.String\<close> as a string),
  \<open>Marshal\<close> is \<^verbatim>\<open>json.Marshal\<close> on the endpoints block of the parameters file (of type
  \<open>'ep\<close>), \<open>YamlToJson\<close>, \<open>JsonToYaml\<close> and \<open>MergeJSON\<close> are the functions of
  \<^verbatim>\<open>utils\<close>, and \<open>ExtractAPIEndpointConfig\<close> the function of \<^verbatim>\<open>params\<close>.
\<close>

record 'ep lib =
  YamlToJson :: "string \<Rightarrow> error + string"
  JsonToYaml :: "string \<Rightarrow> error + string"
  ParseJSON :: "string \<Rightarrow> error + json"
  Bytes :: "json \<Rightarrow> string"
  Marshal :: "'ep \<Rightarrow> error + string"
  ExtractAPIEndpointConfig :: "string \<Rightarrow> error + string"
  MergeJSON :: "string \<Rightarrow> string \<Rightarrow> error + string"

text \<open>
  \<^verbatim>\<open>params.Cert\<close>, a certificate of the parameters file: the path of the certificate
  file and the encoded certificate that \<^verbatim>\<open>generateCertificates\<close> fills in. The other
  fields of the Go struct live in the extension slot of the record.
\<close>

record Cert =
  Path :: string
  Certificate :: string

text \<open>
  \<^verbatim>\<open>params.Environment\<close>, the block of one environment in the parameters file: the
  endpoints, the gateway environments (\<open>None\<close> is the \<^verbatim>\<open>nil\<close> slice), the security
  block (\<open>None\<close> is the \<^verbatim>\<open>nil\<close> pointer) and the certificates.
\<close>

record ('ep, 'c) Environment =
  Endpoints :: 'ep
  GatewayEnvironments :: "string list option"
  Security :: "SecurityData option"
  Certs :: "'c Cert_scheme list"


section \<open>Loading, merging and pre-processing the definition\<close>

definition resolveYamlOrJson ::
  "('ep, 'l) lib_scheme \<Rightarrow> 'w world_scheme \<Rightarrow> string \<Rightarrow> error + (string \<times> string)" where
  "resolveYamlOrJson L w filename =
     (let yamlFp = filename @ ''.yaml'' in
      if isRegularFile w yamlFp
      then
        (let fn = yamlFp in
         case ReadFile w fn of
           Inl err \<Rightarrow> Inl err
         | Inr yamlContent \<Rightarrow>
             (case YamlToJson L yamlContent of
                Inl err \<Rightarrow> Inl err
              | Inr jsonContent \<Rightarrow> Inr (fn, jsonContent)))
      else
        (let jsonFp = filename @ ''.json'' in
         if isRegularFile w jsonFp
         then
           (let fn = jsonFp in
            case ReadFile w fn of
              Inl err \<Rightarrow> Inl err
            | Inr jsonContent \<Rightarrow> Inr (fn, jsonContent))
         else Inl (Error (filename @ '' was not found as a YAML or JSON''))))"

text \<open>
  \<^verbatim>\<open>mergeAPI\<close> returns an error and may write the definition file; the model returns
  the error and the file system after the call.
\<close>

definition mergeAPI ::
  "('ep, 'l) lib_scheme \<Rightarrow> 'w world_scheme \<Rightarrow> string \<Rightarrow> ('ep, 'c, 'e) Environment_scheme
     \<Rightarrow> error option \<times> 'w world_scheme" where
  "mergeAPI L w apiDirectory environmentParams =
     (let apiPath = Join [apiDirectory, ''Meta-information'', ''api''] in
      case resolveYamlOrJson L w apiPath of
        Inl err \<Rightarrow> (Some err, w)
      | Inr (fp, jsonContent) \<Rightarrow>
      (case ParseJSON L jsonContent of
        Inl err \<Rightarrow> (Some err, w)
      | Inr api \<Rightarrow>
      (case ExtractAPIEndpointConfig L (Bytes L api) of
        Inl err \<Rightarrow> (Some err, w)
      | Inr apiEndpointData \<Rightarrow>
      (case Marshal L (Endpoints environmentParams) of
        Inl err \<Rightarrow> (Some err, w)
      | Inr configData \<Rightarrow>
      (case MergeJSON L apiEndpointData configData of
        Inl err \<Rightarrow> (Some err, w)
      | Inr mergedAPIEndpoints \<Rightarrow>
      (case gabs_SetP api (JStr mergedAPIEndpoints) ''endpointConfig'' of
        Inl err \<Rightarrow> (Some err, w)
      | Inr api \<Rightarrow>
      (case (case GatewayEnvironments environmentParams of
               None \<Rightarrow> Inr api
             | Some envs \<Rightarrow> gabs_SetP api (JArr (map JStr envs)) ''environments'') of
        Inl err \<Rightarrow> (Some err, w)
      | Inr api \<Rightarrow>
      (case handleSecurityEndpointsParams (Security environmentParams) api of
        (Some err, api) \<Rightarrow> (Some err, w)
      | (None, api) \<Rightarrow>
      (let apiPath = Join [apiDirectory, ''Meta-information'', ''api.yaml''] in
       case JsonToYaml L (Bytes L api) of
         Inl err \<Rightarrow> (Some err, w)
       | Inr content \<Rightarrow> WriteFile w apiPath content)))))))))"





text \<open>The literal \<^verbatim>\<open>{"endpoint_type":"http"}\<close> that \<^verbatim>\<open>preProcessAPI\<close> parses.\<close>

definition endpointTypeHttp :: string where
  "endpointTypeHttp =
     ''{'' @ [CHR 0x22] @ ''endpoint_type'' @ [CHR 0x22] @ '':'' @ [CHR 0x22] @ ''http''
       @ [CHR 0x22] @ ''}''"

text \<open>
  \<^verbatim>\<open>preProcessAPI\<close>: a definition without \<^verbatim>\<open>endpointConfig\<close> gets one, built from
  the legacy fields \<^verbatim>\<open>productionUrl\<close> and \<^verbatim>\<open>sandboxUrl\<close>, which are deleted (the
  error of a deletion is dropped); the definition is written when it was changed.
\<close>

definition preProcessAPI ::
  "('ep, 'l) lib_scheme \<Rightarrow> 'w world_scheme \<Rightarrow> string \<Rightarrow> error option \<times> 'w world_scheme" where
  "preProcessAPI L w apiDirectory =
     (case resolveYamlOrJson L w (Join [apiDirectory, ''Meta-information'', ''api'']) of
        Inl err \<Rightarrow> (Some err, w)
      | Inr (apiPath, jsonData) \<Rightarrow>
      (case ParseJSON L jsonData of
        Inl err \<Rightarrow> (Some err, w)
      | Inr api \<Rightarrow>
      (case
         (if \<not> gabs_Exists api [''endpointConfig'']
          then
            (case ParseJSON L endpointTypeHttp of
               Inl err \<Rightarrow> Inl err
             | Inr conf \<Rightarrow>
             (case
                (if gabs_Exists api [''productionUrl'']
                 then
                   (case gabs_SetP conf (gabs_Path_Data api ''productionUrl'')
                           ''production_endpoints.url'' of
                      Inl err \<Rightarrow> Inl err
                    | Inr conf \<Rightarrow>
                        (case gabs_SetP conf (JStr ''null'') ''production_endpoints.config'' of
                           Inl err \<Rightarrow> Inl err
                         | Inr conf \<Rightarrow> Inr (conf, snd (gabs_Delete api [''productionUrl'']))))
                 else Inr (conf, api)) of
               Inl err \<Rightarrow> Inl err
             | Inr (conf, api) \<Rightarrow>
             (case
                (if gabs_Exists api [''sandboxUrl'']
                 then
                   (case gabs_SetP conf (gabs_Path_Data api ''sandboxUrl'')
                           ''sandbox_endpoints.url'' of
                      Inl err \<Rightarrow> Inl err
                    | Inr conf \<Rightarrow>
                        (case gabs_SetP conf (JStr ''null'') ''sandbox_endpoints.config'' of
                           Inl err \<Rightarrow> Inl err
                         | Inr conf \<Rightarrow> Inr (conf, snd (gabs_Delete api [''sandboxUrl'']))))
                 else Inr (conf, api)) of
               Inl err \<Rightarrow> Inl err
             | Inr (conf, api) \<Rightarrow>
             (case gabs_SetP api (JStr (Bytes L conf)) ''endpointConfig'' of
               Inl err \<Rightarrow> Inl err
             | Inr api \<Rightarrow> Inr (True, api)))))
          else Inr (False, api)) of
        Inl err \<Rightarrow> (Some err, w)
      | Inr (dirty, api) \<Rightarrow>
          (if dirty
           then
             (let yamlApiPath = Join [apiDirectory, ''Meta-information'', ''api.yaml''] in
              case JsonToYaml L (Bytes L api) of
                Inl err \<Rightarrow> (Some err, w)
              | Inr content \<Rightarrow> WriteFile w yamlApiPath content)
           else (None, w)))))"

section \<open>Create or update\<close>

text \<open>\<^verbatim>\<open>strconv.FormatBool\<close>.\<close>

definition FormatBool :: "bool \<Rightarrow> string" where
  "FormatBool b = (if b then ''true'' else ''false'')"

text \<open>
  \<^verbatim>\<open>url.QueryEscape\<close>: letters, digits and \<^verbatim>\<open>- _ . ~\<close> stay, a space becomes \<^verbatim>\<open>+\<close>,
  every other byte becomes \<^verbatim>\<open>%\<close> and its two upper-case hexadecimal digits.
\<close>

definition upperhex :: "nat \<Rightarrow> char" where
  "upperhex n = ''0123456789ABCDEF'' ! (n mod 16)"

definition shouldEscape :: "char \<Rightarrow> bool" where
  "shouldEscape c =
     (\<not> (c \<in> set ''abcdefghijklmnopqrstuvwxyz'' \<or> c \<in> set ''ABCDEFGHIJKLMNOPQRSTUVWXYZ''
          \<or> c \<in> set ''0123456789'' \<or> c \<in> set ''-_.~''))"

definition QueryEscape :: "string \<Rightarrow> string" where
  "QueryEscape s =
     concat (map (\<lambda>c. if \<not> shouldEscape c then [c]
                       else if c = CHR '' '' then ''+''
                       else [CHR ''%'', upperhex (of_char c div 16), upperhex (of_char c mod 16)]) s)"

text \<open>
  A summary of the catalog, with the identifier the dispatcher reads. The catalog query
  (\<^verbatim>\<open>GetAPIListFromEnv\<close>, \<^verbatim>\<open>GetAPIProductListFromEnv\<close>) is a collaborator: a function
  of the token, the environment, the escaped query and the paging token to an error or
  the count and the list of matches.
\<close>

record summary =
  SummaryID :: string

type_synonym catalog = "string \<Rightarrow> string \<Rightarrow> string \<Rightarrow> string \<Rightarrow> error + (int \<times> summary list)"

text \<open>
  \<^verbatim>\<open>getApiID\<close>: the identifier of the first match, or the empty string when the count
  is zero. \<^verbatim>\<open>apis[0]\<close> on an empty list is a run-time panic.
\<close>

definition getApiID :: "catalog \<Rightarrow> string \<Rightarrow> string \<Rightarrow> string \<Rightarrow> string \<Rightarrow> error + string" where
  "getApiID GetAPIListFromEnv accessOAuthToken environment name version =
     (let apiQuery = ''name:'' @ name @ '' version:'' @ version in
      case GetAPIListFromEnv accessOAuthToken environment (QueryEscape apiQuery) [] of
        Inl err \<Rightarrow> Inl err
      | Inr (count, apis) \<Rightarrow>
          (if count = 0 then Inr []
           else (case apis of
                   [] \<Rightarrow> Inl (Panic ''index out of range [0] with length 0'')
                 | a # _ \<Rightarrow> Inr (SummaryID a))))"

text \<open>\<^verbatim>\<open>getApiProductID\<close>; \<open>DefaultApiProductType\<close> is the constant of \<^verbatim>\<open>utils\<close>.\<close>

definition getApiProductID ::
  "catalog \<Rightarrow> string \<Rightarrow> string \<Rightarrow> string \<Rightarrow> string \<Rightarrow> string \<Rightarrow> error + string" where
  "getApiProductID GetAPIProductListFromEnv DefaultApiProductType name version environment
       accessOAuthToken =
     (let apiProductQuery = ''name:'' @ name @ '' version:'' @ version;
          apiProductQuery =
            apiProductQuery @ '' type:'' @ [CHR 0x22] @ DefaultApiProductType @ [CHR 0x22]
      in
      case GetAPIProductListFromEnv accessOAuthToken environment (QueryEscape apiProductQuery) [] of
        Inl err \<Rightarrow> Inl err
      | Inr (count, apiProducts) \<Rightarrow>
          (if count = 0 then Inr []
           else (case apiProducts of
                   [] \<Rightarrow> Inl (Panic ''index out of range [0] with length 0'')
                 | a # _ \<Rightarrow> Inr (SummaryID a))))"

text \<open>The arguments of the upload call at the end of the dispatcher.\<close>

record upload =
  upEndpoint :: string
  upMethod :: string
  upFilePath :: string
  upAccessToken :: string
  upExtraParams :: "(string \<times> string) list"

text \<open>
  The end of \<^verbatim>\<open>ImportAPI\<close>, from \<^verbatim>\<open>updateAPI := false\<close> to the arguments of the call
  of \<^verbatim>\<open>importAPI\<close>, for the validated definition \<open>apiInfo\<close> and the archive
  \<open>apiFilePath\<close> that the earlier stages produced.
\<close>

definition ImportAPI_upload ::
  "catalog \<Rightarrow> string \<Rightarrow> string \<Rightarrow> string \<Rightarrow> ('u, 'z) APIDefinition_scheme \<Rightarrow> string
     \<Rightarrow> bool \<Rightarrow> bool \<Rightarrow> error + upload" where
  "ImportAPI_upload GetAPIListFromEnv accessOAuthToken adminEndpoint importEnvironment apiInfo
       apiFilePath importAPIUpdate preserveProvider =
     (case
        (if importAPIUpdate
         then
           (case getApiID GetAPIListFromEnv accessOAuthToken importEnvironment
                   (APIName (ID apiInfo)) (Version (ID apiInfo)) of
              Inl err \<Rightarrow> Inl err
            | Inr id' \<Rightarrow> (if id' = [] then Inr False else Inr True))
         else Inr False) of
        Inl err \<Rightarrow> Inl err
      | Inr updateAPI \<Rightarrow>
          (let adminEndpoint = adminEndpoint @ ''/import/api'';
               adminEndpoint =
                 (if updateAPI
                  then adminEndpoint @ ''?overwrite='' @ FormatBool True @ ''&preserveProvider=''
                         @ FormatBool preserveProvider
                  else adminEndpoint @ ''?preserveProvider='' @ FormatBool preserveProvider)
           in Inr \<lparr>upEndpoint = adminEndpoint, upMethod = ''POST'', upFilePath = apiFilePath,
                    upAccessToken = accessOAuthToken, upExtraParams = []\<rparr>))"

text \<open>The end of \<^verbatim>\<open>ImportAPIProduct\<close>, in the same way.\<close>

definition ImportAPIProduct_upload ::
  "catalog \<Rightarrow> string \<Rightarrow> string \<Rightarrow> string \<Rightarrow> string \<Rightarrow> 'z APIProductDefinition_scheme \<Rightarrow> string
     \<Rightarrow> bool \<Rightarrow> bool \<Rightarrow> bool \<Rightarrow> bool \<Rightarrow> error + upload" where
  "ImportAPIProduct_upload GetAPIProductListFromEnv DefaultApiProductType accessOAuthToken
       adminEndpoint importEnvironment apiProductInfo apiProductFilePath importAPIs importAPIsUpdate
       importAPIProductUpdate importAPIProductPreserveProvider =
     (case
        (if importAPIsUpdate \<or> importAPIProductUpdate
         then
           (case getApiProductID GetAPIProductListFromEnv DefaultApiProductType
                   (APIProductName (ProductID apiProductInfo))
                   (ProductVersion (ProductID apiProductInfo)) importEnvironment accessOAuthToken of
              Inl err \<Rightarrow> Inl err
            | Inr id' \<Rightarrow> (if id' = [] then Inr False else Inr True))
         else Inr False) of
        Inl err \<Rightarrow> Inl err
      | Inr updateAPIProduct \<Rightarrow>
          (let adminEndpoint =
                 adminEndpoint @ ''/import/api-product'' @ ''?preserveProvider=''
                   @ FormatBool importAPIProductPreserveProvider;
               adminEndpoint =
                 (if importAPIs \<or> importAPIsUpdate
                  then adminEndpoint @ ''&importAPIs='' @ FormatBool True else adminEndpoint);
               adminEndpoint =
                 (if importAPIsUpdate
                  then adminEndpoint @ ''&overwriteAPIs='' @ FormatBool True else adminEndpoint);
               adminEndpoint =
                 (if updateAPIProduct
                  then adminEndpoint @ ''&overwriteAPIProduct='' @ FormatBool True
                  else adminEndpoint)
           in Inr \<lparr>upEndpoint = adminEndpoint, upMethod = ''POST'', upFilePath = apiProductFilePath,
                    upAccessToken = accessOAuthToken, upExtraParams = []\<rparr>))"

section \<open>The outcome of the upload\<close>

text \<open>
  An HTTP response, as far as the pipeline reads it: the status code, the status line
  and the result of reading the body.
\<close>

record response =
  StatusCode :: int
  Status :: string
  Body :: "error + string"

text \<open>
  \<^verbatim>\<open>importAPI\<close> and \<^verbatim>\<open>importAPIProduct\<close> return an error and print to the standard
  output; the models return what was printed and the error. Building the request
  (\<^verbatim>\<open>newFileUploadRequest\<close>) and sending it (\<^verbatim>\<open>client.Do\<close>) are the transport
  collaborator. The verbose log (\<^verbatim>\<open>utils.Logln\<close>) is not part of the model.
\<close>

definition importAPI ::
  "(string \<Rightarrow> string \<Rightarrow> (string \<times> string) list \<Rightarrow> string \<Rightarrow> string \<Rightarrow> string \<Rightarrow> error + 'req)
     \<Rightarrow> ('req \<Rightarrow> error + 'r response_scheme)
     \<Rightarrow> string \<Rightarrow> string \<Rightarrow> string \<Rightarrow> string \<Rightarrow> (string \<times> string) list
     \<Rightarrow> string \<times> error option" where
  "importAPI newFileUploadRequest clientDo endpoint httpMethod filePath accessToken extraParams =
     (case newFileUploadRequest endpoint httpMethod extraParams ''file'' filePath accessToken of
        Inl err \<Rightarrow> ([], Some err)
      | Inr req \<Rightarrow>
          (case clientDo req of
             Inl err \<Rightarrow> ([], Some err)
           | Inr resp \<Rightarrow>
               (if StatusCode resp = 201 \<or> StatusCode resp = 200
                then (Println [''Successfully imported API''], None)
                else
                  (let out = Println [''Error importing API.'']
                               @ Println [''Status: '' @ Status resp] in
                   case Body resp of
                     Inl err \<Rightarrow> (out, Some err)
                   | Inr strBody \<Rightarrow>
                       (out @ Println [''Response:'', strBody], Some (Error (Status resp)))))))"

definition importAPIProduct ::
  "(string \<Rightarrow> string \<Rightarrow> (string \<times> string) list \<Rightarrow> string \<Rightarrow> string \<Rightarrow> string \<Rightarrow> error + 'req)
     \<Rightarrow> ('req \<Rightarrow> error + 'r response_scheme)
     \<Rightarrow> string \<Rightarrow> string \<Rightarrow> string \<Rightarrow> string \<Rightarrow> (string \<times> string) list
     \<Rightarrow> string \<times> error option" where
  "importAPIProduct NewFileUploadRequest clientDo endpoint httpMethod filePath accessToken extraParams =
     (case NewFileUploadRequest endpoint httpMethod extraParams ''file'' filePath accessToken of
        Inl err \<Rightarrow> ([], Some err)
      | Inr req \<Rightarrow>
          (case clientDo req of
             Inl err \<Rightarrow> ([], Some err)
           | Inr resp \<Rightarrow>
               (if StatusCode resp = 201 \<or> StatusCode resp = 200
                then (Println [''Successfully imported API Product''], None)
                else
                  (let out = Println [''Error importing API Product.'']
                               @ Println [''Status: '' @ Status resp] in
                   case Body resp of
                     Inl err \<Rightarrow> (out, Some err)
                   | Inr strBody \<Rightarrow>
                       (out @ Println [''Response:'', strBody], Some (Error (Status resp)))))))"

text \<open>
  \<^verbatim>\<open>executeImportAppCmd\<close> returns nothing: it prints, or leaves the process through
  \<^verbatim>\<open>utils.HandleErrorAndExit\<close>. The model returns what was printed and the message
  and error of the exit, if any. \<open>GetOAuthAccessToken\<close> is the token provider applied to
  the credential and the environment, \<open>ImportApplicationToEnv\<close> the import applied to
  the flags of the command.
\<close>

definition executeImportAppCmd ::
  "(error + string) \<Rightarrow> (string \<Rightarrow> error + 'r response_scheme)
     \<Rightarrow> string \<times> (string \<times> error) option" where
  "executeImportAppCmd GetOAuthAccessToken ImportApplicationToEnv =
     (case GetOAuthAccessToken of
        Inl err \<Rightarrow> ([], Some (''Error getting OAuth Tokens'', err))
      | Inr accessToken \<Rightarrow>
          (case ImportApplicationToEnv accessToken of
             Inl err \<Rightarrow> ([], Some (''Error importing Application'', err))
           | Inr resp \<Rightarrow>
               (if StatusCode resp = 200 \<or> StatusCode resp = 201
                then (Println [''Successfully imported Application!''], None)
                else if StatusCode resp = 207
                then ([CHR 0x0A] @ ''Partially imported Application'' @ [CHR 0x0A]
                        @ ''NOTE: One or more subscriptions were not imported due to ''
                        @ ''unavailability of APIs/Tiers'' @ [CHR 0x0A], None)
                else if StatusCode resp = 401
                then (Println [''Invalid Credentials or You may not have enough permission!''], None)
                else if StatusCode resp = 403
                then (''Invalid Owner!'' @ [CHR 0x0A] @ ''NOTE: Cross Tenant Imports are not allowed!''
                        @ [CHR 0x0A], None)
                else (Println [''Error importing Application''], None))))"

section \<open>An example run\<close>

text \<open>
  A small world for the examples below: the workspace \<^verbatim>\<open>/tmp/apim/PizzaShack\<close> holds
  the definition file \<^verbatim>\<open>Meta-information/api.yaml\<close>. The collaborators of the example
  know two documents, the definition (a legacy one, with \<^verbatim>\<open>productionUrl\<close> and without
  \<^verbatim>\<open>endpointConfig\<close>) and the literal of \<^verbatim>\<open>preProcessAPI\<close>; they encode a document
  by the list of its keys, take YAML and JSON to be the same text, and let the override
  win the merge of the endpoint configurations.
\<close>

definition exampleWorld :: world where
  "exampleWorld =
     \<lparr>files = (\<lambda>p. if p = ''/tmp/apim/PizzaShack/Meta-information/api.yaml''
                     then Some (File ''name: PizzaShack'')
                     else if p = ''/tmp/apim/PizzaShack/Meta-information'' then Some Dir
                     else None),
      readFails = (\<lambda>p. False),
      writeFails = (\<lambda>p. False),
      writeBreaks = (\<lambda>p. None)\<rparr>"

definition exampleLib :: "string lib" where
  "exampleLib =
     \<lparr>YamlToJson = (\<lambda>s. Inr s),
      JsonToYaml = (\<lambda>s. Inr s),
      ParseJSON =
        (\<lambda>s. if s = ''name: PizzaShack''
              then Inr (JObj [(''name'', JStr ''PizzaShack''),
                              (''productionUrl'', JStr ''http://localhost:8080/pizza'')])
              else if s = endpointTypeHttp then Inr (JObj [(''endpoint_type'', JStr ''http'')])
              else Inl (Error ''invalid character'')),
      Bytes = (\<lambda>j. case j of JObj kvs \<Rightarrow> ''{'' @ strings_Join (map fst kvs) '','' @ ''}''
                        | _ \<Rightarrow> ''{}''),
      Marshal = (\<lambda>endpoints. Inr endpoints),
      ExtractAPIEndpointConfig = (\<lambda>b. Inr []),
      MergeJSON = (\<lambda>first second. Inr second)\<rparr>"






text \<open>
  A catalog that holds a match for every query, and a transport that accepts every
  request and answers it with status 207.
\<close>

definition catalogWithMatch :: catalog where
  "catalogWithMatch token env query page = Inr (1, [\<lparr>SummaryID = ''7a2298c4''\<rparr>])"

definition acceptRequest ::
  "string \<Rightarrow> string \<Rightarrow> (string \<times> string) list \<Rightarrow> string \<Rightarrow> string \<Rightarrow> string \<Rightarrow> error + unit" where
  "acceptRequest uri method params paramName path token = Inr ()"

definition answer207 :: "unit \<Rightarrow> error + response" where
  "answer207 req =
     Inr \<lparr>StatusCode = 207, Status = ''207 Multi-Status'', Body = Inr ''partially imported''\<rparr>"

section \<open>Properties of the library models\<close>

text \<open>The examples of the documentation of \<^verbatim>\<open>path.Clean\<close>.\<close>

lemma Clean_examples:
  "Clean ''a/c'' = ''a/c''"
  "Clean ''a//c'' = ''a/c''"
  "Clean ''a/c/.'' = ''a/c''"
  "Clean ''a/c/b/..'' = ''a/c''"
  "Clean ''/../a/c'' = ''/a/c''"
  "Clean ''/../a/b/../././/c'' = ''/a/c''"
  "Clean [] = ''.''"
  by (simp_all add: Clean_def endOrSlash_def)

lemma Clean_nonempty: "Clean p \<noteq> []"
  by (cases p) (simp_all add: Clean_def Let_def)

lemma stripAny_Nil: "stripAny qs [] = None"
  by (induction qs) (auto simp: HasPrefix_def)

lemma stripAny_split: "stripAny qs s = Some r \<Longrightarrow> \<exists>q \<in> set qs. s = q @ r"
proof (induction qs)
  case Nil
  then show ?case by simp
next
  case (Cons q qs)
  show ?case
  proof (cases "q \<noteq> [] \<and> HasPrefix s q")
    case True
    with Cons.prems have r: "r = drop (length q) s" by simp
    from True have "take (length q) s = q" by (simp add: HasPrefix_def)
    then have "s = q @ r" unfolding r by (metis append_take_drop_id)
    then show ?thesis by auto
  next
    case False
    with Cons show ?thesis by auto
  qed
qed

text \<open>Trimming removes only bytes of the trimmed runes.\<close>

lemma trimLeftRunes_keeps:
  "x \<in> set s \<Longrightarrow> \<forall>q \<in> set qs. x \<notin> set q \<Longrightarrow> x \<in> set (trimLeftRunes qs s)"
proof (induction qs s rule: trimLeftRunes.induct)
  case (1 qs s)
  show ?case
  proof (cases "stripAny qs s")
    case None
    with "1.prems" show ?thesis by (simp add: trimLeftRunes.simps)
  next
    case (Some r)
    then obtain q where "q \<in> set qs" "s = q @ r" using stripAny_split by blast
    with "1.prems" have "x \<in> set r" by auto
    with "1.IH" [OF Some] "1.prems" Some show ?thesis by (simp add: trimLeftRunes.simps)
  qed
qed

lemma TrimSpace_keeps:
  assumes "x \<in> set s" "\<forall>q \<in> set spaceRunes. x \<notin> set q"
  shows "x \<in> set (TrimSpace s)"
proof -
  have a: "x \<in> set (trimLeftRunes spaceRunes s)"
    using assms by (rule trimLeftRunes_keeps)
  have "\<forall>q \<in> set (map rev spaceRunes). x \<notin> set q"
    using assms(2) by auto
  with a have "x \<in> set (trimLeftRunes (map rev spaceRunes) (rev (trimLeftRunes spaceRunes s)))"
    by (intro trimLeftRunes_keeps) simp_all
  then show ?thesis by (simp add: TrimSpace_def)
qed

lemma illegal_not_space: "c \<in> set illegalChars \<Longrightarrow> \<forall>q \<in> set spaceRunes. c \<notin> set q"
  unfolding illegalChars_def spaceRunes_def by auto

lemma isEmpty_Nil: "isEmpty []"
  by (simp add: isEmpty_def TrimSpace_def trimLeftRunes.simps stripAny_Nil)

lemma slash_not_empty: "\<not> isEmpty (CHR ''/'' # v)"
proof -
  have "\<forall>q \<in> set spaceRunes. CHR ''/'' \<notin> set q"
    unfolding spaceRunes_def by simp
  then have "CHR ''/'' \<in> set (TrimSpace (CHR ''/'' # v))"
    by (intro TrimSpace_keeps) simp_all
  then show ?thesis by (auto simp: isEmpty_def)
qed

text \<open>A name with a character of the forbidden class is not blank.\<close>

lemma illegal_name_not_empty: "\<exists>c \<in> set s. c \<in> set illegalChars \<Longrightarrow> \<not> isEmpty s"
proof -
  assume "\<exists>c \<in> set s. c \<in> set illegalChars"
  then obtain c where c: "c \<in> set s" "c \<in> set illegalChars" by blast
  from c(2) have "\<forall>q \<in> set spaceRunes. c \<notin> set q" by (rule illegal_not_space)
  with c(1) have "c \<in> set (TrimSpace s)" by (rule TrimSpace_keeps)
  then show ?thesis by (auto simp: isEmpty_def)
qed

lemma Clean_slash_version: "Clean ''/{version}'' = ''/{version}''"
  by (simp add: Clean_def endOrSlash_def)

lemma ReplaceAll_slash_version: "ReplaceAll ''/{version}'' ''{version}'' v = CHR ''/'' # v"
  by (simp add: HasPrefix_def)

section \<open>Properties of the defaults\<close>

lemma populateApi_fixed:
  "ContextTemplate d \<noteq> [] \<Longrightarrow> Tags d \<noteq> None \<Longrightarrow> URITemplates d \<noteq> None \<Longrightarrow>
   Implementation d \<noteq> [] \<Longrightarrow> populateApiWithDefaults d = (False, d)"
  by (simp add: populateApiWithDefaults_def)

lemma populateApi_filled:
  "ContextTemplate (snd (populateApiWithDefaults d)) \<noteq> []"
  "Tags (snd (populateApiWithDefaults d)) \<noteq> None"
  "URITemplates (snd (populateApiWithDefaults d)) \<noteq> None"
  "Implementation (snd (populateApiWithDefaults d)) \<noteq> []"
  by (auto simp: populateApiWithDefaults_def Let_def Clean_nonempty)

lemma populateProduct_fixed:
  "ProductContextTemplate d \<noteq> [] \<Longrightarrow> ProductTags d \<noteq> None \<Longrightarrow>
   populateApiProductWithDefaults d = (False, d)"
  by (simp add: populateApiProductWithDefaults_def)

lemma populateProduct_filled:
  "ProductContextTemplate (snd (populateApiProductWithDefaults d)) \<noteq> []"
  "ProductTags (snd (populateApiProductWithDefaults d)) \<noteq> None"
  by (auto simp: populateApiProductWithDefaults_def Let_def Clean_nonempty)

text \<open>The context fields after the defaults, when the template was unset.\<close>

lemma populateApi_context:
  assumes "ContextTemplate d = []"
  shows "ContextTemplate (snd (populateApiWithDefaults d)) =
           (if Contains (Context d) ''{version}'' then Clean (Context d)
            else Clean (Context d @ ''/{version}''))"
    and "Context (snd (populateApiWithDefaults d)) =
           ReplaceAll (ContextTemplate (snd (populateApiWithDefaults d))) ''{version}'' (Version (ID d))"
    and "ID (snd (populateApiWithDefaults d)) = ID d"
  using assms by (auto simp: populateApiWithDefaults_def Let_def)

lemma populateProduct_context:
  assumes "ProductContextTemplate d = []"
  shows "ProductContextTemplate (snd (populateApiProductWithDefaults d)) =
           (if Contains (ProductContext d) ''{version}'' then Clean (ProductContext d)
            else Clean (ProductContext d @ ''/{version}''))"
    and "ProductContext (snd (populateApiProductWithDefaults d)) =
           ReplaceAll (ProductContextTemplate (snd (populateApiProductWithDefaults d))) ''{version}''
             (ProductVersion (ProductID d))"
    and "ProductID (snd (populateApiProductWithDefaults d)) = ProductID d"
  using assms by (auto simp: populateApiProductWithDefaults_def Let_def)

text \<open>
  Claim C4. For a definition whose context template is unset, the defaults compute: when
  the context contains the placeholder \<^verbatim>\<open>{version}\<close>, the template is the cleaned
  context, otherwise it is the cleaned context followed by \<^verbatim>\<open>/{version}\<close>; in both cases
  the final context is the template with the placeholder replaced by the version of the
  definition. This holds for APIs and for API Products.
\<close>

theorem context_template_default:
  "(ContextTemplate d = [] \<longrightarrow>
      (let d' = snd (populateApiWithDefaults d)
       in (if Contains (Context d) ''{version}''
           then ContextTemplate d' = Clean (Context d)
           else ContextTemplate d' = Clean (Context d @ ''/{version}''))
          \<and> Context d' = ReplaceAll (ContextTemplate d') ''{version}'' (Version (ID d))))
   \<and> (ProductContextTemplate p = [] \<longrightarrow>
      (let p' = snd (populateApiProductWithDefaults p)
       in (if Contains (ProductContext p) ''{version}''
           then ProductContextTemplate p' = Clean (ProductContext p)
           else ProductContextTemplate p' = Clean (ProductContext p @ ''/{version}''))
          \<and> ProductContext p' =
              ReplaceAll (ProductContextTemplate p') ''{version}'' (ProductVersion (ProductID p))))"
  using populateApi_context(1,2) [of d] populateProduct_context(1,2) [of p]
  by (simp add: Let_def)

theorem context_template_default_witness:
  "ContextTemplate
     (\<lparr>ID = \<lparr>ProviderName = ''admin'', APIName = ''PizzaShack'', Version = ''1.0.0''\<rparr>,
       Context = ''/pizza'', ContextTemplate = [], Tags = None,
       URITemplates = (None :: unit list option), Implementation = []\<rparr>) = []
   \<and> ContextTemplate (snd (populateApiWithDefaults
       \<lparr>ID = \<lparr>ProviderName = ''admin'', APIName = ''PizzaShack'', Version = ''1.0.0''\<rparr>,
         Context = ''/pizza'', ContextTemplate = [], Tags = None,
         URITemplates = (None :: unit list option), Implementation = []\<rparr>)) = ''/pizza/{version}''
   \<and> Context (snd (populateApiWithDefaults
       \<lparr>ID = \<lparr>ProviderName = ''admin'', APIName = ''PizzaShack'', Version = ''1.0.0''\<rparr>,
         Context = ''/pizza'', ContextTemplate = [], Tags = None,
         URITemplates = (None :: unit list option), Implementation = []\<rparr>)) = ''/pizza/1.0.0''
   \<and> ProductContextTemplate (snd (populateApiProductWithDefaults
       \<lparr>ProductID = \<lparr>ProductProviderName = ''admin'', APIProductName = ''Shop'',
                       ProductVersion = ''2.0''\<rparr>,
         ProductContext = ''/shop//{version}/'', ProductContextTemplate = [],
         ProductTags = None\<rparr>)) = ''/shop/{version}''
   \<and> ProductContext (snd (populateApiProductWithDefaults
       \<lparr>ProductID = \<lparr>ProductProviderName = ''admin'', APIProductName = ''Shop'',
                       ProductVersion = ''2.0''\<rparr>,
         ProductContext = ''/shop//{version}/'', ProductContextTemplate = [],
         ProductTags = None\<rparr>)) = ''/shop/2.0''"
  using context_template_default
      [of "\<lparr>ID = \<lparr>ProviderName = ''admin'', APIName = ''PizzaShack'', Version = ''1.0.0''\<rparr>,
            Context = ''/pizza'', ContextTemplate = [], Tags = None,
            URITemplates = (None :: unit list option), Implementation = []\<rparr>"
          "\<lparr>ProductID = \<lparr>ProductProviderName = ''admin'', APIProductName = ''Shop'',
                          ProductVersion = ''2.0''\<rparr>,
            ProductContext = ''/shop//{version}/'', ProductContextTemplate = [],
            ProductTags = None\<rparr>"]
  by (simp add: Let_def Clean_def endOrSlash_def HasPrefix_def)

text \<open>
  Claim C8. Applying the defaults is idempotent: applied to its own result, the defaults
  function returns that result unchanged and reports it as not dirty. This holds for
  APIs and for API Products.
\<close>

theorem populate_defaults_idempotent:
  "populateApiWithDefaults (snd (populateApiWithDefaults d))
     = (False, snd (populateApiWithDefaults d))
   \<and> populateApiProductWithDefaults (snd (populateApiProductWithDefaults p))
     = (False, snd (populateApiProductWithDefaults p))"
  using populateApi_fixed [OF populateApi_filled, of d]
        populateProduct_fixed [OF populateProduct_filled, of p]
  by simp

section \<open>Properties of the validation\<close>

lemma validateApi_firstFailure: "validateApiDefinition d = firstFailure (apiRules d)"
  by (simp add: validateApiDefinition_def apiRules_def)

lemma validateProduct_firstFailure:
  "validateApiProductDefinition p = firstFailure (apiProductRules p)"
  by (simp add: validateApiProductDefinition_def apiProductRules_def)

text \<open>
  Claim C5. Validation checks the seven rules in the order of the specification and
  reports the first failure only: the validator is the first failure of the ordered rule
  list. In particular a definition whose name has a forbidden character and whose context
  is blank is reported for the name characters (rule 2), not for the context (rule 4).
  This holds for APIs and for API Products.
\<close>

theorem validation_first_failure:
  "validateApiDefinition d = firstFailure (apiRules d)
   \<and> validateApiProductDefinition p = firstFailure (apiProductRules p)
   \<and> (reApiName_MatchString (APIName (ID d)) \<and> isEmpty (Context d) \<longrightarrow>
        validateApiDefinition d
          = Some (Error (''apiName contains one or more illegal characters '' @ illegalCharsText))
        \<and> validateApiDefinition d \<noteq> Some (Error ''context is required''))
   \<and> (reApiProductName_MatchString (APIProductName (ProductID p)) \<and> isEmpty (ProductContext p) \<longrightarrow>
        validateApiProductDefinition p
          = Some (Error (''apiProductName contains one or more illegal characters ''
                         @ illegalCharsText))
        \<and> validateApiProductDefinition p \<noteq> Some (Error ''context is required''))"
proof -
  have a: "validateApiDefinition d
             = Some (Error (''apiName contains one or more illegal characters '' @ illegalCharsText))"
    if "reApiName_MatchString (APIName (ID d))"
    using that illegal_name_not_empty [of "APIName (ID d)"]
    by (simp add: validateApiDefinition_def reApiName_MatchString_def)
  have b: "validateApiProductDefinition p
             = Some (Error (''apiProductName contains one or more illegal characters ''
                            @ illegalCharsText))"
    if "reApiProductName_MatchString (APIProductName (ProductID p))"
    using that illegal_name_not_empty [of "APIProductName (ProductID p)"]
    by (simp add: validateApiProductDefinition_def reApiProductName_MatchString_def)
  show ?thesis
    using a b validateApi_firstFailure [of d] validateProduct_firstFailure [of p]
    by simp
qed

theorem validation_first_failure_witness:
  "reApiName_MatchString ''Pizza$Shack''
   \<and> isEmpty []
   \<and> validateApiDefinition
       \<lparr>ID = \<lparr>ProviderName = ''admin'', APIName = ''Pizza$Shack'', Version = ''1.0.0''\<rparr>,
         Context = [], ContextTemplate = ''/pizza/{version}'', Tags = None,
         URITemplates = (None :: unit list option), Implementation = []\<rparr>
       = Some (Error (''apiName contains one or more illegal characters '' @ illegalCharsText))
   \<and> reApiProductName_MatchString ''Shop&Co''
   \<and> validateApiProductDefinition
       \<lparr>ProductID = \<lparr>ProductProviderName = ''admin'', APIProductName = ''Shop&Co'',
                       ProductVersion = ''2.0''\<rparr>,
         ProductContext = [], ProductContextTemplate = [], ProductTags = None\<rparr>
       = Some (Error (''apiProductName contains one or more illegal characters ''
                      @ illegalCharsText))"
proof -
  have m1: "reApiName_MatchString ''Pizza$Shack''"
    by (simp add: reApiName_MatchString_def illegalChars_def)
  have m2: "reApiProductName_MatchString ''Shop&Co''"
    by (simp add: reApiProductName_MatchString_def illegalChars_def)
  note t = validation_first_failure
      [of "\<lparr>ID = \<lparr>ProviderName = ''admin'', APIName = ''Pizza$Shack'', Version = ''1.0.0''\<rparr>,
            Context = [], ContextTemplate = ''/pizza/{version}'', Tags = None,
            URITemplates = (None :: unit list option), Implementation = []\<rparr>"
          "\<lparr>ProductID = \<lparr>ProductProviderName = ''admin'', APIProductName = ''Shop&Co'',
                          ProductVersion = ''2.0''\<rparr>,
            ProductContext = [], ProductContextTemplate = [], ProductTags = None\<rparr>"]
  from t [THEN conjunct2, THEN conjunct2, THEN conjunct1]
       t [THEN conjunct2, THEN conjunct2, THEN conjunct2]
  show ?thesis
    by (simp add: m1 m2 isEmpty_Nil)
qed

lemma api_empty_context:
  assumes h: "ContextTemplate d = []" "Context d = []"
  shows "ContextTemplate (snd (populateApiWithDefaults d)) = ''/{version}''"
    and "Context (snd (populateApiWithDefaults d)) = CHR ''/'' # Version (ID d)"
proof -
  have nc: "\<not> Contains [] ''{version}''" by simp
  show t: "ContextTemplate (snd (populateApiWithDefaults d)) = ''/{version}''"
    unfolding populateApi_context(1) [OF h(1)] h(2) using nc Clean_slash_version by simp
  show "Context (snd (populateApiWithDefaults d)) = CHR ''/'' # Version (ID d)"
    unfolding populateApi_context(2) [OF h(1)] t by (rule ReplaceAll_slash_version)
qed

lemma product_empty_context:
  assumes h: "ProductContextTemplate p = []" "ProductContext p = []"
  shows "ProductContextTemplate (snd (populateApiProductWithDefaults p)) = ''/{version}''"
    and "ProductContext (snd (populateApiProductWithDefaults p))
           = CHR ''/'' # ProductVersion (ProductID p)"
proof -
  have nc: "\<not> Contains [] ''{version}''" by simp
  show t: "ProductContextTemplate (snd (populateApiProductWithDefaults p)) = ''/{version}''"
    unfolding populateProduct_context(1) [OF h(1)] h(2) using nc Clean_slash_version by simp
  show "ProductContext (snd (populateApiProductWithDefaults p))
          = CHR ''/'' # ProductVersion (ProductID p)"
    unfolding populateProduct_context(2) [OF h(1)] t by (rule ReplaceAll_slash_version)
qed

text \<open>A context that starts with a slash passes the two context rules.\<close>

lemma validateApi_slash_context:
  assumes c: "Context d' = CHR ''/'' # v"
  shows "validateApiDefinition d' \<noteq> Some (Error ''context is required'')"
    and "validateApiDefinition d' \<noteq> Some (Error ''context should begin with a /'')"
    and "\<not> isEmpty (APIName (ID d')) \<and> \<not> reApiName_MatchString (APIName (ID d'))
           \<and> isEmpty (Version (ID d')) \<longrightarrow>
         validateApiDefinition d' = Some (Error ''version is required'')"
proof -
  have ne: "\<not> isEmpty (Context d')"
    unfolding c by (rule slash_not_empty)
  have hp: "HasPrefix (Context d') ''/''"
    unfolding c by (simp add: HasPrefix_def)
  show "validateApiDefinition d' \<noteq> Some (Error ''context is required'')"
    using ne by (simp add: validateApiDefinition_def)
  show "validateApiDefinition d' \<noteq> Some (Error ''context should begin with a /'')"
    using hp by (simp add: validateApiDefinition_def)
  show "\<not> isEmpty (APIName (ID d')) \<and> \<not> reApiName_MatchString (APIName (ID d'))
           \<and> isEmpty (Version (ID d')) \<longrightarrow>
         validateApiDefinition d' = Some (Error ''version is required'')"
    by (simp add: validateApiDefinition_def)
qed

lemma validateProduct_slash_context:
  assumes c: "ProductContext p' = CHR ''/'' # v"
  shows "validateApiProductDefinition p' \<noteq> Some (Error ''context is required'')"
    and "validateApiProductDefinition p' \<noteq> Some (Error ''context should begin with a /'')"
    and "\<not> isEmpty (APIProductName (ProductID p'))
           \<and> \<not> reApiProductName_MatchString (APIProductName (ProductID p'))
           \<and> isEmpty (ProductVersion (ProductID p')) \<longrightarrow>
         validateApiProductDefinition p' = Some (Error ''version is required'')"
proof -
  have ne: "\<not> isEmpty (ProductContext p')"
    unfolding c by (rule slash_not_empty)
  have hp: "HasPrefix (ProductContext p') ''/''"
    unfolding c by (simp add: HasPrefix_def)
  show "validateApiProductDefinition p' \<noteq> Some (Error ''context is required'')"
    using ne by (simp add: validateApiProductDefinition_def)
  show "validateApiProductDefinition p' \<noteq> Some (Error ''context should begin with a /'')"
    using hp by (simp add: validateApiProductDefinition_def)
  show "\<not> isEmpty (APIProductName (ProductID p'))
           \<and> \<not> reApiProductName_MatchString (APIProductName (ProductID p'))
           \<and> isEmpty (ProductVersion (ProductID p')) \<longrightarrow>
         validateApiProductDefinition p' = Some (Error ''version is required'')"
    by (simp add: validateApiProductDefinition_def)
qed

text \<open>
  Claim C10. For a definition whose context template is unset and whose context is the
  empty string, the defaults produce the template \<^verbatim>\<open>/{version}\<close> and the context \<^verbatim>\<open>/\<close>
  followed by the version; the validator then never reports "context is required" or
  "context should begin with a /", and a blank version (under a valid name) is reported
  as "version is required". This holds for APIs and for API Products.
\<close>

theorem empty_context_defaults:
  "(ContextTemplate d = [] \<and> Context d = [] \<longrightarrow>
      (let d' = snd (populateApiWithDefaults d)
       in ContextTemplate d' = ''/{version}''
          \<and> Context d' = ''/'' @ Version (ID d)
          \<and> validateApiDefinition d' \<noteq> Some (Error ''context is required'')
          \<and> validateApiDefinition d' \<noteq> Some (Error ''context should begin with a /'')
          \<and> (\<not> isEmpty (APIName (ID d)) \<and> \<not> reApiName_MatchString (APIName (ID d))
               \<and> isEmpty (Version (ID d)) \<longrightarrow>
               validateApiDefinition d' = Some (Error ''version is required''))))
   \<and> (ProductContextTemplate p = [] \<and> ProductContext p = [] \<longrightarrow>
      (let p' = snd (populateApiProductWithDefaults p)
       in ProductContextTemplate p' = ''/{version}''
          \<and> ProductContext p' = ''/'' @ ProductVersion (ProductID p)
          \<and> validateApiProductDefinition p' \<noteq> Some (Error ''context is required'')
          \<and> validateApiProductDefinition p' \<noteq> Some (Error ''context should begin with a /'')
          \<and> (\<not> isEmpty (APIProductName (ProductID p))
               \<and> \<not> reApiProductName_MatchString (APIProductName (ProductID p))
               \<and> isEmpty (ProductVersion (ProductID p)) \<longrightarrow>
               validateApiProductDefinition p' = Some (Error ''version is required''))))"
proof -
  have a: "ContextTemplate (snd (populateApiWithDefaults d)) = ''/{version}''
      \<and> Context (snd (populateApiWithDefaults d)) = ''/'' @ Version (ID d)
      \<and> validateApiDefinition (snd (populateApiWithDefaults d)) \<noteq> Some (Error ''context is required'')
      \<and> validateApiDefinition (snd (populateApiWithDefaults d))
          \<noteq> Some (Error ''context should begin with a /'')
      \<and> (\<not> isEmpty (APIName (ID d)) \<and> \<not> reApiName_MatchString (APIName (ID d))
           \<and> isEmpty (Version (ID d)) \<longrightarrow>
           validateApiDefinition (snd (populateApiWithDefaults d)) = Some (Error ''version is required''))"
    if h: "ContextTemplate d = []" "Context d = []"
  proof -
    note c = api_empty_context [OF h]
    note v = validateApi_slash_context [OF c(2)]
    have i: "ID (snd (populateApiWithDefaults d)) = ID d"
      by (rule populateApi_context(3) [OF h(1)])
    from c(2) have c2: "Context (snd (populateApiWithDefaults d)) = ''/'' @ Version (ID d)"
      by simp
    from v(3) have v3: "\<not> isEmpty (APIName (ID d)) \<and> \<not> reApiName_MatchString (APIName (ID d))
           \<and> isEmpty (Version (ID d)) \<longrightarrow>
           validateApiDefinition (snd (populateApiWithDefaults d)) = Some (Error ''version is required'')"
      unfolding i .
    from c(1) c2 v(1) v(2) v3 show ?thesis
      by (intro conjI)
  qed
  have b: "ProductContextTemplate (snd (populateApiProductWithDefaults p)) = ''/{version}''
      \<and> ProductContext (snd (populateApiProductWithDefaults p)) = ''/'' @ ProductVersion (ProductID p)
      \<and> validateApiProductDefinition (snd (populateApiProductWithDefaults p))
          \<noteq> Some (Error ''context is required'')
      \<and> validateApiProductDefinition (snd (populateApiProductWithDefaults p))
          \<noteq> Some (Error ''context should begin with a /'')
      \<and> (\<not> isEmpty (APIProductName (ProductID p))
           \<and> \<not> reApiProductName_MatchString (APIProductName (ProductID p))
           \<and> isEmpty (ProductVersion (ProductID p)) \<longrightarrow>
           validateApiProductDefinition (snd (populateApiProductWithDefaults p))
             = Some (Error ''version is required''))"
    if h: "ProductContextTemplate p = []" "ProductContext p = []"
  proof -
    note c = product_empty_context [OF h]
    note v = validateProduct_slash_context [OF c(2)]
    have i: "ProductID (snd (populateApiProductWithDefaults p)) = ProductID p"
      by (rule populateProduct_context(3) [OF h(1)])
    from c(2) have c2: "ProductContext (snd (populateApiProductWithDefaults p))
        = ''/'' @ ProductVersion (ProductID p)"
      by simp
    from v(3) have v3: "\<not> isEmpty (APIProductName (ProductID p))
           \<and> \<not> reApiProductName_MatchString (APIProductName (ProductID p))
           \<and> isEmpty (ProductVersion (ProductID p)) \<longrightarrow>
           validateApiProductDefinition (snd (populateApiProductWithDefaults p))
             = Some (Error ''version is required'')"
      unfolding i .
    from c(1) c2 v(1) v(2) v3 show ?thesis
      by (intro conjI)
  qed
  show ?thesis
    unfolding Let_def using a b by blast
qed

theorem empty_context_defaults_witness:
  "ContextTemplate (snd (populateApiWithDefaults
       \<lparr>ID = \<lparr>ProviderName = ''admin'', APIName = ''PizzaShack'', Version = []\<rparr>,
         Context = [], ContextTemplate = [], Tags = None,
         URITemplates = (None :: unit list option), Implementation = []\<rparr>)) = ''/{version}''
   \<and> Context (snd (populateApiWithDefaults
       \<lparr>ID = \<lparr>ProviderName = ''admin'', APIName = ''PizzaShack'', Version = []\<rparr>,
         Context = [], ContextTemplate = [], Tags = None,
         URITemplates = (None :: unit list option), Implementation = []\<rparr>)) = ''/''
   \<and> validateApiDefinition (snd (populateApiWithDefaults
       \<lparr>ID = \<lparr>ProviderName = ''admin'', APIName = ''PizzaShack'', Version = []\<rparr>,
         Context = [], ContextTemplate = [], Tags = None,
         URITemplates = (None :: unit list option), Implementation = []\<rparr>))
       = Some (Error ''version is required'')
   \<and> ProductContext (snd (populateApiProductWithDefaults
       \<lparr>ProductID = \<lparr>ProductProviderName = ''admin'', APIProductName = ''Shop'',
                       ProductVersion = ''2.0''\<rparr>,
         ProductContext = [], ProductContextTemplate = [], ProductTags = None\<rparr>)) = ''/2.0''"
proof -
  have n1: "\<not> isEmpty ''PizzaShack''"
  proof -
    have "CHR ''P'' \<in> set (TrimSpace ''PizzaShack'')"
      by (rule TrimSpace_keeps) (simp_all add: spaceRunes_def)
    then show ?thesis by (auto simp: isEmpty_def)
  qed
  have n2: "\<not> reApiName_MatchString ''PizzaShack''"
    by (simp add: reApiName_MatchString_def illegalChars_def)
  note t = empty_context_defaults
      [of "\<lparr>ID = \<lparr>ProviderName = ''admin'', APIName = ''PizzaShack'', Version = []\<rparr>,
            Context = [], ContextTemplate = [], Tags = None,
            URITemplates = (None :: unit list option), Implementation = []\<rparr>"
          "\<lparr>ProductID = \<lparr>ProductProviderName = ''admin'', APIProductName = ''Shop'',
                          ProductVersion = ''2.0''\<rparr>,
            ProductContext = [], ProductContextTemplate = [], ProductTags = None\<rparr>"]
  from t [THEN conjunct1] t [THEN conjunct2]
  show ?thesis
    by (simp add: Let_def n1 n2 isEmpty_Nil)
qed
section \<open>Properties of the security parameters\<close>

lemma SplitDot_nodot: "CHR ''.'' \<notin> set k \<Longrightarrow> SplitDot k = [k]"
  by (induction k) auto

text \<open>Setting a key without dots in a map (or in the \<^verbatim>\<open>nil\<close> container) cannot fail.\<close>

lemma gabs_SetP_key:
  "CHR ''.'' \<notin> set k \<Longrightarrow> asMap g = Some kvs \<Longrightarrow>
   gabs_SetP g v k = Inr (JObj (AList.update k v kvs))"
  by (auto simp: gabs_SetP_def SplitDot_nodot asMap_def split: json.splits)

lemma asMap_JObj: "asMap (JObj kvs) = Some kvs"
  by (simp add: asMap_def)

lemma gabs_Search_key: "gabs_Search (JObj kvs) [k] = map_of kvs k"
  by (simp split: option.splits)

lemma handleSecurity_false:
  assumes "Enabled p = ''false''" "asMap api = Some kvs"
  shows "handleSecurityEndpointsParams (Some p) api =
    (None, JObj (AList.update ''endpointUTPassword'' (JStr [])
             (AList.update ''endpointUTUsername'' (JStr [])
               (AList.update ''endpointSecured'' (JBool False) kvs))))"
  using assms
  by (simp add: handleSecurityEndpointsParams_def ParseBool_def gabs_SetP_key asMap_JObj)

lemma handleSecurity_true:
  assumes "ParseBool (Enabled p) = Inr True" "asMap api = Some kvs"
  shows "handleSecurityEndpointsParams (Some p) api =
     setSecurityEndpointsParams p (JObj (AList.update ''endpointSecured'' (JBool True) kvs))"
proof -
  from assms(1) have "Enabled p \<noteq> []"
    by (auto simp: ParseBool_def)
  with assms show ?thesis
    by (simp add: handleSecurityEndpointsParams_def gabs_SetP_key asMap_JObj)
qed

lemma setSecurity_ok:
  assumes "Username p \<noteq> []" "Password p \<noteq> []" "Type p \<noteq> []"
  shows "setSecurityEndpointsParams p (JObj kvs) =
    setEndpointSecurityType p
      (JObj (AList.update ''endpointUTPassword'' (JStr (Password p))
              (AList.update ''endpointUTUsername'' (JStr (Username p)) kvs)))"
  using assms
  by (simp add: setSecurityEndpointsParams_def gabs_SetP_key asMap_JObj)

text \<open>
  Claim C1. A security override whose \<open>Enabled\<close> field is not set (no security block, or
  the empty string) leaves the whole definition as it was, so the secured flag, the user
  name and the password are unchanged. An override with \<open>Enabled = "false"\<close> sets the
  secured flag to false and the user name and the password to the empty string, whatever
  they held before, and changes no other field.
\<close>

theorem security_unset_or_false:
  "handleSecurityEndpointsParams None api = (None, api)
   \<and> (Enabled p = [] \<longrightarrow> handleSecurityEndpointsParams (Some p) api = (None, api))
   \<and> (Enabled p = ''false'' \<and> asMap api = Some kvs \<longrightarrow>
        (\<exists>kvs'. handleSecurityEndpointsParams (Some p) api = (None, JObj kvs')
           \<and> gabs_Search (JObj kvs') [''endpointSecured''] = Some (JBool False)
           \<and> gabs_Search (JObj kvs') [''endpointUTUsername''] = Some (JStr [])
           \<and> gabs_Search (JObj kvs') [''endpointUTPassword''] = Some (JStr [])
           \<and> (\<forall>k. k \<noteq> ''endpointSecured'' \<and> k \<noteq> ''endpointUTUsername''
                  \<and> k \<noteq> ''endpointUTPassword'' \<longrightarrow>
                gabs_Search (JObj kvs') [k] = map_of kvs k)))"
proof -
  have a: "handleSecurityEndpointsParams None api = (None, api)"
    by (simp add: handleSecurityEndpointsParams_def)
  have b: "handleSecurityEndpointsParams (Some p) api = (None, api)" if "Enabled p = []"
    using that by (simp add: handleSecurityEndpointsParams_def)
  have c: "\<exists>kvs'. handleSecurityEndpointsParams (Some p) api = (None, JObj kvs')
           \<and> gabs_Search (JObj kvs') [''endpointSecured''] = Some (JBool False)
           \<and> gabs_Search (JObj kvs') [''endpointUTUsername''] = Some (JStr [])
           \<and> gabs_Search (JObj kvs') [''endpointUTPassword''] = Some (JStr [])
           \<and> (\<forall>k. k \<noteq> ''endpointSecured'' \<and> k \<noteq> ''endpointUTUsername''
                  \<and> k \<noteq> ''endpointUTPassword'' \<longrightarrow>
                gabs_Search (JObj kvs') [k] = map_of kvs k)"
    if h: "Enabled p = ''false''" "asMap api = Some kvs"
  proof (intro exI conjI)
    show "handleSecurityEndpointsParams (Some p) api =
      (None, JObj (AList.update ''endpointUTPassword'' (JStr [])
             (AList.update ''endpointUTUsername'' (JStr [])
               (AList.update ''endpointSecured'' (JBool False) kvs))))"
      using h by (rule handleSecurity_false)
  qed (simp_all add: update_conv' split: option.splits)
  from a b c show ?thesis by blast
qed

theorem security_unset_or_false_witness:
  "handleSecurityEndpointsParams
     (Some \<lparr>Enabled = [], Username = ''u'', Password = ''p'', Type = ''basic''\<rparr>)
     (JObj [(''endpointSecured'', JBool True), (''endpointUTUsername'', JStr ''admin''),
            (''endpointUTPassword'', JStr ''secret'')])
   = (None, JObj [(''endpointSecured'', JBool True), (''endpointUTUsername'', JStr ''admin''),
                  (''endpointUTPassword'', JStr ''secret'')])
   \<and> handleSecurityEndpointsParams
     (Some \<lparr>Enabled = ''false'', Username = [], Password = [], Type = []\<rparr>)
     (JObj [(''endpointSecured'', JBool True), (''endpointUTUsername'', JStr ''admin''),
            (''endpointUTPassword'', JStr ''secret''), (''type'', JStr ''HTTP'')])
   = (None, JObj [(''endpointSecured'', JBool False), (''endpointUTUsername'', JStr []),
                  (''endpointUTPassword'', JStr []), (''type'', JStr ''HTTP'')])"
proof -
  note t1 = security_unset_or_false
    [of "JObj [(''endpointSecured'', JBool True), (''endpointUTUsername'', JStr ''admin''),
               (''endpointUTPassword'', JStr ''secret'')]"
        "\<lparr>Enabled = [], Username = ''u'', Password = ''p'', Type = ''basic''\<rparr>" "[]"]
  note t2 = security_unset_or_false
    [of "JObj [(''endpointSecured'', JBool True), (''endpointUTUsername'', JStr ''admin''),
               (''endpointUTPassword'', JStr ''secret''), (''type'', JStr ''HTTP'')]"
        "\<lparr>Enabled = ''false'', Username = [], Password = [], Type = []\<rparr>"
        "[(''endpointSecured'', JBool True), (''endpointUTUsername'', JStr ''admin''),
          (''endpointUTPassword'', JStr ''secret''), (''type'', JStr ''HTTP'')]"]
  have e: "handleSecurityEndpointsParams
     (Some \<lparr>Enabled = ''false'', Username = [], Password = [], Type = []\<rparr>)
     (JObj [(''endpointSecured'', JBool True), (''endpointUTUsername'', JStr ''admin''),
            (''endpointUTPassword'', JStr ''secret''), (''type'', JStr ''HTTP'')])
   = (None, JObj [(''endpointSecured'', JBool False), (''endpointUTUsername'', JStr []),
                  (''endpointUTPassword'', JStr []), (''type'', JStr ''HTTP'')])"
    by (simp add: handleSecurityEndpointsParams_def ParseBool_def gabs_SetP_def)
  from t1 [THEN conjunct2, THEN conjunct1] t2 [THEN conjunct2, THEN conjunct2] e
  show ?thesis
    by (simp add: asMap_def)
qed

text \<open>
  Claim C6. For a security override whose \<open>Enabled\<close> field parses to true, on a definition
  that is a JSON object: an empty user name, password or type fails with the error that
  names the missing field; otherwise the user name and the password are written into the
  definition and the type decides: \<^verbatim>\<open>digest\<close> sets \<open>endpointAuthDigest\<close> to true,
  \<^verbatim>\<open>basic\<close> sets it to false, and any other type fails with the invalid-type error.
\<close>

theorem security_enabled_true:
  "ParseBool (Enabled p) = Inr True \<and> asMap api = Some kvs \<longrightarrow>
     (Username p = [] \<longrightarrow>
        fst (handleSecurityEndpointsParams (Some p) api)
          = Some (Error (''You have enabled endpoint security but the username is not found ''
                         @ ''in the api_params.yaml'')))
     \<and> (Username p \<noteq> [] \<and> Password p = [] \<longrightarrow>
        fst (handleSecurityEndpointsParams (Some p) api)
          = Some (Error (''You have enabled endpoint security but the password is not found ''
                         @ ''in the api_params.yaml'')))
     \<and> (Username p \<noteq> [] \<and> Password p \<noteq> [] \<and> Type p = [] \<longrightarrow>
        fst (handleSecurityEndpointsParams (Some p) api)
          = Some (Error (''You have enabled endpoint security but the type is not found ''
                         @ ''in the api_params.yaml'')))
     \<and> (Username p \<noteq> [] \<and> Password p \<noteq> [] \<and> (Type p = ''digest'' \<or> Type p = ''basic'') \<longrightarrow>
        (\<exists>kvs'. handleSecurityEndpointsParams (Some p) api = (None, JObj kvs')
           \<and> gabs_Search (JObj kvs') [''endpointSecured''] = Some (JBool True)
           \<and> gabs_Search (JObj kvs') [''endpointUTUsername''] = Some (JStr (Username p))
           \<and> gabs_Search (JObj kvs') [''endpointUTPassword''] = Some (JStr (Password p))
           \<and> gabs_Search (JObj kvs') [''endpointAuthDigest'']
               = Some (JBool (Type p = ''digest''))))
     \<and> (Username p \<noteq> [] \<and> Password p \<noteq> [] \<and> Type p \<noteq> []
          \<and> Type p \<noteq> ''digest'' \<and> Type p \<noteq> ''basic'' \<longrightarrow>
        fst (handleSecurityEndpointsParams (Some p) api)
          = Some (Error (''Invalid endpoint security type found in the api_params.yaml. ''
                         @ ''Should be either basic or digest'')))"
proof (intro impI, elim conjE)
  assume h: "ParseBool (Enabled p) = Inr True" "asMap api = Some kvs"
  note t = handleSecurity_true [OF h]
  have u: "fst (handleSecurityEndpointsParams (Some p) api)
          = Some (Error (''You have enabled endpoint security but the username is not found ''
                         @ ''in the api_params.yaml''))"
    if "Username p = []"
    unfolding t using that by (simp add: setSecurityEndpointsParams_def)
  have pw: "fst (handleSecurityEndpointsParams (Some p) api)
          = Some (Error (''You have enabled endpoint security but the password is not found ''
                         @ ''in the api_params.yaml''))"
    if "Username p \<noteq> []" "Password p = []"
    unfolding t using that by (simp add: setSecurityEndpointsParams_def)
  have ty: "fst (handleSecurityEndpointsParams (Some p) api)
          = Some (Error (''You have enabled endpoint security but the type is not found ''
                         @ ''in the api_params.yaml''))"
    if "Username p \<noteq> []" "Password p \<noteq> []" "Type p = []"
    unfolding t using that by (simp add: setSecurityEndpointsParams_def)
  have ok: "\<exists>kvs'. handleSecurityEndpointsParams (Some p) api = (None, JObj kvs')
           \<and> gabs_Search (JObj kvs') [''endpointSecured''] = Some (JBool True)
           \<and> gabs_Search (JObj kvs') [''endpointUTUsername''] = Some (JStr (Username p))
           \<and> gabs_Search (JObj kvs') [''endpointUTPassword''] = Some (JStr (Password p))
           \<and> gabs_Search (JObj kvs') [''endpointAuthDigest'']
               = Some (JBool (Type p = ''digest''))"
    if n: "Username p \<noteq> []" "Password p \<noteq> []" and d: "Type p = ''digest'' \<or> Type p = ''basic''"
  proof -
    from d have "Type p \<noteq> []" by auto
    note s = setSecurity_ok [OF n this]
    have "handleSecurityEndpointsParams (Some p) api =
      (None, JObj (AList.update ''endpointAuthDigest'' (JBool (Type p = ''digest''))
        (AList.update ''endpointUTPassword'' (JStr (Password p))
          (AList.update ''endpointUTUsername'' (JStr (Username p))
            (AList.update ''endpointSecured'' (JBool True) kvs)))))"
      unfolding t s using d
      by (auto simp: setEndpointSecurityType_def gabs_SetP_key asMap_JObj)
    then show ?thesis
      by (simp add: update_conv')
  qed
  have bad: "fst (handleSecurityEndpointsParams (Some p) api)
          = Some (Error (''Invalid endpoint security type found in the api_params.yaml. ''
                         @ ''Should be either basic or digest''))"
    if n: "Username p \<noteq> []" "Password p \<noteq> []" "Type p \<noteq> []"
      and d: "Type p \<noteq> ''digest''" "Type p \<noteq> ''basic''"
    unfolding t setSecurity_ok [OF n] using d
    by (simp add: setEndpointSecurityType_def)
  from u pw ty ok bad
  show "(Username p = [] \<longrightarrow>
        fst (handleSecurityEndpointsParams (Some p) api)
          = Some (Error (''You have enabled endpoint security but the username is not found ''
                         @ ''in the api_params.yaml'')))
     \<and> (Username p \<noteq> [] \<and> Password p = [] \<longrightarrow>
        fst (handleSecurityEndpointsParams (Some p) api)
          = Some (Error (''You have enabled endpoint security but the password is not found ''
                         @ ''in the api_params.yaml'')))
     \<and> (Username p \<noteq> [] \<and> Password p \<noteq> [] \<and> Type p = [] \<longrightarrow>
        fst (handleSecurityEndpointsParams (Some p) api)
          = Some (Error (''You have enabled endpoint security but the type is not found ''
                         @ ''in the api_params.yaml'')))
     \<and> (Username p \<noteq> [] \<and> Password p \<noteq> [] \<and> (Type p = ''digest'' \<or> Type p = ''basic'') \<longrightarrow>
        (\<exists>kvs'. handleSecurityEndpointsParams (Some p) api = (None, JObj kvs')
           \<and> gabs_Search (JObj kvs') [''endpointSecured''] = Some (JBool True)
           \<and> gabs_Search (JObj kvs') [''endpointUTUsername''] = Some (JStr (Username p))
           \<and> gabs_Search (JObj kvs') [''endpointUTPassword''] = Some (JStr (Password p))
           \<and> gabs_Search (JObj kvs') [''endpointAuthDigest'']
               = Some (JBool (Type p = ''digest''))))
     \<and> (Username p \<noteq> [] \<and> Password p \<noteq> [] \<and> Type p \<noteq> []
          \<and> Type p \<noteq> ''digest'' \<and> Type p \<noteq> ''basic'' \<longrightarrow>
        fst (handleSecurityEndpointsParams (Some p) api)
          = Some (Error (''Invalid endpoint security type found in the api_params.yaml. ''
                         @ ''Should be either basic or digest'')))"
    by blast
qed

theorem security_enabled_true_witness:
  "ParseBool ''true'' = Inr True
   \<and> handleSecurityEndpointsParams
       (Some \<lparr>Enabled = ''true'', Username = ''admin'', Password = ''secret'', Type = ''digest''\<rparr>)
       (JObj [(''name'', JStr ''PizzaShack'')])
     = (None, JObj [(''name'', JStr ''PizzaShack''), (''endpointSecured'', JBool True),
                    (''endpointUTUsername'', JStr ''admin''),
                    (''endpointUTPassword'', JStr ''secret''),
                    (''endpointAuthDigest'', JBool True)])
   \<and> fst (handleSecurityEndpointsParams
       (Some \<lparr>Enabled = ''true'', Username = ''admin'', Password = [], Type = ''digest''\<rparr>)
       (JObj [(''name'', JStr ''PizzaShack'')]))
     = Some (Error (''You have enabled endpoint security but the password is not found ''
                    @ ''in the api_params.yaml''))
   \<and> fst (handleSecurityEndpointsParams
       (Some \<lparr>Enabled = ''true'', Username = ''admin'', Password = ''secret'', Type = ''oauth''\<rparr>)
       (JObj [(''name'', JStr ''PizzaShack'')]))
     = Some (Error (''Invalid endpoint security type found in the api_params.yaml. ''
                    @ ''Should be either basic or digest''))"
proof -
  have pb: "ParseBool ''true'' = Inr True"
    by (simp add: ParseBool_def)
  have am: "asMap (JObj [(''name'', JStr ''PizzaShack'')]) = Some [(''name'', JStr ''PizzaShack'')]"
    by (simp add: asMap_def)
  have e: "handleSecurityEndpointsParams
       (Some \<lparr>Enabled = ''true'', Username = ''admin'', Password = ''secret'', Type = ''digest''\<rparr>)
       (JObj [(''name'', JStr ''PizzaShack'')])
     = (None, JObj [(''name'', JStr ''PizzaShack''), (''endpointSecured'', JBool True),
                    (''endpointUTUsername'', JStr ''admin''),
                    (''endpointUTPassword'', JStr ''secret''),
                    (''endpointAuthDigest'', JBool True)])"
    by (simp add: handleSecurityEndpointsParams_def ParseBool_def gabs_SetP_def
        setSecurityEndpointsParams_def setEndpointSecurityType_def)
  note t2 = security_enabled_true
    [of "\<lparr>Enabled = ''true'', Username = ''admin'', Password = [], Type = ''digest''\<rparr>"
        "JObj [(''name'', JStr ''PizzaShack'')]" "[(''name'', JStr ''PizzaShack'')]"]
  note t3 = security_enabled_true
    [of "\<lparr>Enabled = ''true'', Username = ''admin'', Password = ''secret'', Type = ''oauth''\<rparr>"
        "JObj [(''name'', JStr ''PizzaShack'')]" "[(''name'', JStr ''PizzaShack'')]"]
  from t2 pb am
  have r2: "fst (handleSecurityEndpointsParams
       (Some \<lparr>Enabled = ''true'', Username = ''admin'', Password = [], Type = ''digest''\<rparr>)
       (JObj [(''name'', JStr ''PizzaShack'')]))
     = Some (Error (''You have enabled endpoint security but the password is not found ''
                    @ ''in the api_params.yaml''))"
    by simp
  from t3 pb am
  have r3: "fst (handleSecurityEndpointsParams
       (Some \<lparr>Enabled = ''true'', Username = ''admin'', Password = ''secret'', Type = ''oauth''\<rparr>)
       (JObj [(''name'', JStr ''PizzaShack'')]))
     = Some (Error (''Invalid endpoint security type found in the api_params.yaml. ''
                    @ ''Should be either basic or digest''))"
    by simp
  from pb e r2 r3 show ?thesis
    by (intro conjI)
qed

section \<open>Properties of the dispatcher\<close>

text \<open>
  Claim C7, as stated, fails. An import run without the update flag never queries the
  catalog and takes the create path, although the catalog holds a match for the name and
  version of the definition (\<open>catalogWithMatch\<close> answers every query with a count of one
  and one summary). And the update
  of an API Product that the catalog holds adds \<^verbatim>\<open>overwriteAPIProduct=true\<close> to the
  query string, not \<^verbatim>\<open>overwrite=true\<close>.
\<close>

theorem dispatch_counterexample:
  "ImportAPI_upload catalogWithMatch
     ''token'' ''https://localhost:9443/api/am/admin/v1'' ''dev''
     \<lparr>ID = \<lparr>ProviderName = ''admin'', APIName = ''PizzaShack'', Version = ''1.0.0''\<rparr>,
       Context = ''/pizza/1.0.0'', ContextTemplate = ''/pizza/{version}'', Tags = Some [],
       URITemplates = Some ([] :: unit list), Implementation = ''ENDPOINT''\<rparr>
     ''/tmp/api-artifact.zip'' False False
   = Inr \<lparr>upEndpoint = ''https://localhost:9443/api/am/admin/v1/import/api?preserveProvider=false'',
          upMethod = ''POST'', upFilePath = ''/tmp/api-artifact.zip'', upAccessToken = ''token'',
          upExtraParams = []\<rparr>
   \<and> ImportAPIProduct_upload catalogWithMatch
     ''APIProduct'' ''token'' ''https://localhost:9443/api/am/admin/v1'' ''dev''
     \<lparr>ProductID = \<lparr>ProductProviderName = ''admin'', APIProductName = ''Shop'',
                     ProductVersion = ''1.0.0''\<rparr>,
       ProductContext = ''/shop'', ProductContextTemplate = ''/shop'', ProductTags = Some []\<rparr>
     ''/tmp/api-artifact.zip'' False False True False
   = Inr \<lparr>upEndpoint = ''https://localhost:9443/api/am/admin/v1/import/api-product''
                           @ ''?preserveProvider=false&overwriteAPIProduct=true'',
          upMethod = ''POST'', upFilePath = ''/tmp/api-artifact.zip'', upAccessToken = ''token'',
          upExtraParams = []\<rparr>"
  by (simp add: ImportAPI_upload_def ImportAPIProduct_upload_def getApiProductID_def
      FormatBool_def catalogWithMatch_def)

text \<open>
  Claim C7, amended. Without the update flag the dispatcher does not query the catalog
  and takes the create path. With the update flag (\<open>importAPIUpdate\<close> for an API,
  \<open>importAPIsUpdate\<close> or \<open>importAPIProductUpdate\<close> for an API Product) it queries the
  catalog with the escaped filter \<^verbatim>\<open>name:N version:V\<close> (for a product followed by the
  type filter): a count of zero selects the create path, whose query string for an API is
  \<^verbatim>\<open>preserveProvider\<close> alone; a count other than zero whose first match has a non-empty
  identifier selects the update path, which adds \<^verbatim>\<open>overwrite=true\<close> for an API and
  \<^verbatim>\<open>overwriteAPIProduct=true\<close> for a product, and one whose first match has an empty
  identifier selects the create path; an error of the query is returned as it is, for an
  API and for a product, and nothing is uploaded. The verb, the archive, the token and the
  form parameters of the upload are the same on both paths.
\<close>

theorem dispatch_create_or_update:
  "(\<not> importAPIUpdate \<longrightarrow>
      ImportAPI_upload GetAPIListFromEnv token adminEndpoint env d archive importAPIUpdate pp
        = Inr \<lparr>upEndpoint = adminEndpoint @ ''/import/api?preserveProvider='' @ FormatBool pp,
               upMethod = ''POST'', upFilePath = archive, upAccessToken = token,
               upExtraParams = []\<rparr>)
   \<and> (importAPIUpdate
        \<and> GetAPIListFromEnv token env
            (QueryEscape (''name:'' @ APIName (ID d) @ '' version:'' @ Version (ID d))) []
            = Inl err \<longrightarrow>
      ImportAPI_upload GetAPIListFromEnv token adminEndpoint env d archive importAPIUpdate pp = Inl err)
   \<and> (importAPIUpdate
        \<and> GetAPIListFromEnv token env
            (QueryEscape (''name:'' @ APIName (ID d) @ '' version:'' @ Version (ID d))) []
            = Inr (count, apis) \<longrightarrow>
      (count = 0 \<longrightarrow>
         ImportAPI_upload GetAPIListFromEnv token adminEndpoint env d archive importAPIUpdate pp
           = Inr \<lparr>upEndpoint = adminEndpoint @ ''/import/api?preserveProvider='' @ FormatBool pp,
                  upMethod = ''POST'', upFilePath = archive, upAccessToken = token,
                  upExtraParams = []\<rparr>)
      \<and> (count \<noteq> 0 \<and> apis = a # rest \<and> SummaryID a \<noteq> [] \<longrightarrow>
         ImportAPI_upload GetAPIListFromEnv token adminEndpoint env d archive importAPIUpdate pp
           = Inr \<lparr>upEndpoint = adminEndpoint @ ''/import/api?overwrite=true&preserveProvider=''
                                 @ FormatBool pp,
                  upMethod = ''POST'', upFilePath = archive, upAccessToken = token,
                  upExtraParams = []\<rparr>)
      \<and> (count \<noteq> 0 \<and> apis = a # rest \<and> SummaryID a = [] \<longrightarrow>
         ImportAPI_upload GetAPIListFromEnv token adminEndpoint env d archive importAPIUpdate pp
           = Inr \<lparr>upEndpoint = adminEndpoint @ ''/import/api?preserveProvider='' @ FormatBool pp,
                  upMethod = ''POST'', upFilePath = archive, upAccessToken = token,
                  upExtraParams = []\<rparr>))
   \<and> (\<not> (importAPIsUpdate \<or> importAPIProductUpdate) \<longrightarrow>
      ImportAPIProduct_upload GetAPIProductListFromEnv T token adminEndpoint env p archive
          importAPIs importAPIsUpdate importAPIProductUpdate pp
        = Inr \<lparr>upEndpoint = adminEndpoint @ ''/import/api-product?preserveProvider=''
                              @ FormatBool pp @ (if importAPIs then ''&importAPIs=true'' else []),
               upMethod = ''POST'', upFilePath = archive, upAccessToken = token,
               upExtraParams = []\<rparr>)
   \<and> ((importAPIsUpdate \<or> importAPIProductUpdate)
        \<and> GetAPIProductListFromEnv token env
            (QueryEscape (''name:'' @ APIProductName (ProductID p) @ '' version:''
                          @ ProductVersion (ProductID p) @ '' type:'' @ [CHR 0x22] @ T
                          @ [CHR 0x22])) []
            = Inl err' \<longrightarrow>
      ImportAPIProduct_upload GetAPIProductListFromEnv T token adminEndpoint env p archive
          importAPIs importAPIsUpdate importAPIProductUpdate pp = Inl err')
   \<and> ((importAPIsUpdate \<or> importAPIProductUpdate)
        \<and> GetAPIProductListFromEnv token env
            (QueryEscape (''name:'' @ APIProductName (ProductID p) @ '' version:''
                          @ ProductVersion (ProductID p) @ '' type:'' @ [CHR 0x22] @ T
                          @ [CHR 0x22])) []
            = Inr (count', products) \<longrightarrow>
      (count' = 0 \<longrightarrow>
         ImportAPIProduct_upload GetAPIProductListFromEnv T token adminEndpoint env p archive
             importAPIs importAPIsUpdate importAPIProductUpdate pp
           = Inr \<lparr>upEndpoint = adminEndpoint @ ''/import/api-product?preserveProvider=''
                      @ FormatBool pp
                      @ (if importAPIs \<or> importAPIsUpdate then ''&importAPIs=true'' else [])
                      @ (if importAPIsUpdate then ''&overwriteAPIs=true'' else []),
                  upMethod = ''POST'', upFilePath = archive, upAccessToken = token,
                  upExtraParams = []\<rparr>)
      \<and> (count' \<noteq> 0 \<and> products = b # rest' \<and> SummaryID b \<noteq> [] \<longrightarrow>
         ImportAPIProduct_upload GetAPIProductListFromEnv T token adminEndpoint env p archive
             importAPIs importAPIsUpdate importAPIProductUpdate pp
           = Inr \<lparr>upEndpoint = adminEndpoint @ ''/import/api-product?preserveProvider=''
                      @ FormatBool pp
                      @ (if importAPIs \<or> importAPIsUpdate then ''&importAPIs=true'' else [])
                      @ (if importAPIsUpdate then ''&overwriteAPIs=true'' else [])
                      @ ''&overwriteAPIProduct=true'',
                  upMethod = ''POST'', upFilePath = archive, upAccessToken = token,
                  upExtraParams = []\<rparr>)
      \<and> (count' \<noteq> 0 \<and> products = b # rest' \<and> SummaryID b = [] \<longrightarrow>
         ImportAPIProduct_upload GetAPIProductListFromEnv T token adminEndpoint env p archive
             importAPIs importAPIsUpdate importAPIProductUpdate pp
           = Inr \<lparr>upEndpoint = adminEndpoint @ ''/import/api-product?preserveProvider=''
                      @ FormatBool pp
                      @ (if importAPIs \<or> importAPIsUpdate then ''&importAPIs=true'' else [])
                      @ (if importAPIsUpdate then ''&overwriteAPIs=true'' else []),
                  upMethod = ''POST'', upFilePath = archive, upAccessToken = token,
                  upExtraParams = []\<rparr>))"
proof (intro conjI impI; (elim conjE)?)
  show "ImportAPI_upload GetAPIListFromEnv token adminEndpoint env d archive importAPIUpdate pp
        = Inr \<lparr>upEndpoint = adminEndpoint @ ''/import/api?preserveProvider='' @ FormatBool pp,
               upMethod = ''POST'', upFilePath = archive, upAccessToken = token,
               upExtraParams = []\<rparr>"
    if "\<not> importAPIUpdate"
    using that by (simp add: ImportAPI_upload_def)
next
  show "ImportAPI_upload GetAPIListFromEnv token adminEndpoint env d archive importAPIUpdate pp = Inl err"
    if "importAPIUpdate"
      "GetAPIListFromEnv token env
         (QueryEscape (''name:'' @ APIName (ID d) @ '' version:'' @ Version (ID d))) [] = Inl err"
    using that by (simp add: ImportAPI_upload_def getApiID_def)
next
  assume u: "importAPIUpdate"
    and q: "GetAPIListFromEnv token env
         (QueryEscape (''name:'' @ APIName (ID d) @ '' version:'' @ Version (ID d))) []
         = Inr (count, apis)"
  show "ImportAPI_upload GetAPIListFromEnv token adminEndpoint env d archive importAPIUpdate pp
           = Inr \<lparr>upEndpoint = adminEndpoint @ ''/import/api?preserveProvider='' @ FormatBool pp,
                  upMethod = ''POST'', upFilePath = archive, upAccessToken = token,
                  upExtraParams = []\<rparr>"
    if "count = 0"
    using u q that by (simp add: ImportAPI_upload_def getApiID_def)
  show "ImportAPI_upload GetAPIListFromEnv token adminEndpoint env d archive importAPIUpdate pp
           = Inr \<lparr>upEndpoint = adminEndpoint @ ''/import/api?overwrite=true&preserveProvider=''
                                 @ FormatBool pp,
                  upMethod = ''POST'', upFilePath = archive, upAccessToken = token,
                  upExtraParams = []\<rparr>"
    if "count \<noteq> 0" "apis = a # rest" "SummaryID a \<noteq> []"
    using u q that
    by (simp add: ImportAPI_upload_def getApiID_def FormatBool_def)
  show "ImportAPI_upload GetAPIListFromEnv token adminEndpoint env d archive importAPIUpdate pp
           = Inr \<lparr>upEndpoint = adminEndpoint @ ''/import/api?preserveProvider='' @ FormatBool pp,
                  upMethod = ''POST'', upFilePath = archive, upAccessToken = token,
                  upExtraParams = []\<rparr>"
    if "count \<noteq> 0" "apis = a # rest" "SummaryID a = []"
    using u q that
    by (simp add: ImportAPI_upload_def getApiID_def FormatBool_def)
next
  show "ImportAPIProduct_upload GetAPIProductListFromEnv T token adminEndpoint env p archive
          importAPIs importAPIsUpdate importAPIProductUpdate pp
        = Inr \<lparr>upEndpoint = adminEndpoint @ ''/import/api-product?preserveProvider=''
                              @ FormatBool pp @ (if importAPIs then ''&importAPIs=true'' else []),
               upMethod = ''POST'', upFilePath = archive, upAccessToken = token,
               upExtraParams = []\<rparr>"
    if "\<not> (importAPIsUpdate \<or> importAPIProductUpdate)"
    using that by (simp add: ImportAPIProduct_upload_def FormatBool_def)
next
  show "ImportAPIProduct_upload GetAPIProductListFromEnv T token adminEndpoint env p archive
          importAPIs importAPIsUpdate importAPIProductUpdate pp = Inl err'"
    if "importAPIsUpdate \<or> importAPIProductUpdate"
      "GetAPIProductListFromEnv token env
            (QueryEscape (''name:'' @ APIProductName (ProductID p) @ '' version:''
                          @ ProductVersion (ProductID p) @ '' type:'' @ [CHR 0x22] @ T
                          @ [CHR 0x22])) []
            = Inl err'"
    using that by (auto simp: ImportAPIProduct_upload_def getApiProductID_def)
next
  assume u: "importAPIsUpdate \<or> importAPIProductUpdate"
    and q: "GetAPIProductListFromEnv token env
            (QueryEscape (''name:'' @ APIProductName (ProductID p) @ '' version:''
                          @ ProductVersion (ProductID p) @ '' type:'' @ [CHR 0x22] @ T
                          @ [CHR 0x22])) []
            = Inr (count', products)"
  show "ImportAPIProduct_upload GetAPIProductListFromEnv T token adminEndpoint env p archive
             importAPIs importAPIsUpdate importAPIProductUpdate pp
           = Inr \<lparr>upEndpoint = adminEndpoint @ ''/import/api-product?preserveProvider=''
                      @ FormatBool pp
                      @ (if importAPIs \<or> importAPIsUpdate then ''&importAPIs=true'' else [])
                      @ (if importAPIsUpdate then ''&overwriteAPIs=true'' else []),
                  upMethod = ''POST'', upFilePath = archive, upAccessToken = token,
                  upExtraParams = []\<rparr>"
    if "count' = 0"
    using u q that
    by (auto simp: ImportAPIProduct_upload_def getApiProductID_def FormatBool_def)
  show "ImportAPIProduct_upload GetAPIProductListFromEnv T token adminEndpoint env p archive
             importAPIs importAPIsUpdate importAPIProductUpdate pp
           = Inr \<lparr>upEndpoint = adminEndpoint @ ''/import/api-product?preserveProvider=''
                      @ FormatBool pp
                      @ (if importAPIs \<or> importAPIsUpdate then ''&importAPIs=true'' else [])
                      @ (if importAPIsUpdate then ''&overwriteAPIs=true'' else [])
                      @ ''&overwriteAPIProduct=true'',
                  upMethod = ''POST'', upFilePath = archive, upAccessToken = token,
                  upExtraParams = []\<rparr>"
    if "count' \<noteq> 0" "products = b # rest'" "SummaryID b \<noteq> []"
    using u q that
    by (auto simp: ImportAPIProduct_upload_def getApiProductID_def FormatBool_def)
  show "ImportAPIProduct_upload GetAPIProductListFromEnv T token adminEndpoint env p archive
             importAPIs importAPIsUpdate importAPIProductUpdate pp
           = Inr \<lparr>upEndpoint = adminEndpoint @ ''/import/api-product?preserveProvider=''
                      @ FormatBool pp
                      @ (if importAPIs \<or> importAPIsUpdate then ''&importAPIs=true'' else [])
                      @ (if importAPIsUpdate then ''&overwriteAPIs=true'' else []),
                  upMethod = ''POST'', upFilePath = archive, upAccessToken = token,
                  upExtraParams = []\<rparr>"
    if "count' \<noteq> 0" "products = b # rest'" "SummaryID b = []"
    using u q that
    by (auto simp: ImportAPIProduct_upload_def getApiProductID_def FormatBool_def)
qed

theorem dispatch_create_or_update_witness:
  "QueryEscape ''name:PizzaShack version:1.0.0'' = ''name%3APizzaShack+version%3A1.0.0''
   \<and> ImportAPI_upload
       (\<lambda>token env query page.
          if query = ''name%3APizzaShack+version%3A1.0.0''
          then Inr (1, [\<lparr>SummaryID = ''7a2298c4''\<rparr>]) else Inr (0, []))
       ''token'' ''https://localhost:9443/api/am/admin/v1'' ''dev''
       \<lparr>ID = \<lparr>ProviderName = ''admin'', APIName = ''PizzaShack'', Version = ''1.0.0''\<rparr>,
         Context = ''/pizza/1.0.0'', ContextTemplate = ''/pizza/{version}'', Tags = Some [],
         URITemplates = Some ([] :: unit list), Implementation = ''ENDPOINT''\<rparr>
       ''/tmp/api-artifact.zip'' True False
     = Inr \<lparr>upEndpoint =
              ''https://localhost:9443/api/am/admin/v1/import/api?overwrite=true&preserveProvider=false'',
            upMethod = ''POST'', upFilePath = ''/tmp/api-artifact.zip'', upAccessToken = ''token'',
            upExtraParams = []\<rparr>
   \<and> ImportAPI_upload
       (\<lambda>token env query page.
          if query = ''name%3APizzaShack+version%3A1.0.0''
          then Inr (1, [\<lparr>SummaryID = ''7a2298c4''\<rparr>]) else Inr (0, []))
       ''token'' ''https://localhost:9443/api/am/admin/v1'' ''dev''
       \<lparr>ID = \<lparr>ProviderName = ''admin'', APIName = ''PizzaShack'', Version = ''2.0.0''\<rparr>,
         Context = ''/pizza/2.0.0'', ContextTemplate = ''/pizza/{version}'', Tags = Some [],
         URITemplates = Some ([] :: unit list), Implementation = ''ENDPOINT''\<rparr>
       ''/tmp/api-artifact.zip'' True False
     = Inr \<lparr>upEndpoint =
              ''https://localhost:9443/api/am/admin/v1/import/api?preserveProvider=false'',
            upMethod = ''POST'', upFilePath = ''/tmp/api-artifact.zip'', upAccessToken = ''token'',
            upExtraParams = []\<rparr>
   \<and> ImportAPIProduct_upload
       (\<lambda>token env query page. Inl (Error ''connection refused''))
       ''APIProduct'' ''token'' ''https://localhost:9443/api/am/admin/v1'' ''dev''
       \<lparr>ProductID = \<lparr>ProductProviderName = ''admin'', APIProductName = ''Shop'',
                       ProductVersion = ''1.0.0''\<rparr>,
         ProductContext = ''/shop'', ProductContextTemplate = ''/shop'', ProductTags = Some []\<rparr>
       ''/tmp/api-artifact.zip'' False False True False
     = Inl (Error ''connection refused'')"
proof -
  have q1: "QueryEscape ''name:PizzaShack version:1.0.0'' = ''name%3APizzaShack+version%3A1.0.0''"
    by (simp add: QueryEscape_def shouldEscape_def upperhex_def)
  have q2: "QueryEscape ''name:PizzaShack version:2.0.0'' = ''name%3APizzaShack+version%3A2.0.0''"
    by (simp add: QueryEscape_def shouldEscape_def upperhex_def)
  note t1 = dispatch_create_or_update
    [where importAPIUpdate = True
       and GetAPIListFromEnv = "\<lambda>token env query page.
          if query = ''name%3APizzaShack+version%3A1.0.0''
          then Inr (1, [\<lparr>SummaryID = ''7a2298c4''\<rparr>]) else Inr (0, [])"
       and token = "''token''" and adminEndpoint = "''https://localhost:9443/api/am/admin/v1''"
       and env = "''dev''"
       and d = "\<lparr>ID = \<lparr>ProviderName = ''admin'', APIName = ''PizzaShack'', Version = ''1.0.0''\<rparr>,
          Context = ''/pizza/1.0.0'', ContextTemplate = ''/pizza/{version}'', Tags = Some [],
          URITemplates = Some ([] :: unit list), Implementation = ''ENDPOINT''\<rparr>"
       and archive = "''/tmp/api-artifact.zip''" and pp = False and count = 1
       and apis = "[\<lparr>SummaryID = ''7a2298c4''\<rparr>]"
       and a = "\<lparr>SummaryID = ''7a2298c4''\<rparr>" and rest = "[]",
      THEN conjunct2, THEN conjunct2, THEN conjunct1]
  note t2 = dispatch_create_or_update
    [where importAPIUpdate = True
       and GetAPIListFromEnv = "\<lambda>token env query page.
          if query = ''name%3APizzaShack+version%3A1.0.0''
          then Inr (1, [\<lparr>SummaryID = ''7a2298c4''\<rparr>]) else Inr (0, [])"
       and token = "''token''" and adminEndpoint = "''https://localhost:9443/api/am/admin/v1''"
       and env = "''dev''"
       and d = "\<lparr>ID = \<lparr>ProviderName = ''admin'', APIName = ''PizzaShack'', Version = ''2.0.0''\<rparr>,
          Context = ''/pizza/2.0.0'', ContextTemplate = ''/pizza/{version}'', Tags = Some [],
          URITemplates = Some ([] :: unit list), Implementation = ''ENDPOINT''\<rparr>"
       and archive = "''/tmp/api-artifact.zip''" and pp = False and count = 0
       and apis = "[]" and a = "\<lparr>SummaryID = []\<rparr>" and rest = "[]",
      THEN conjunct2, THEN conjunct2, THEN conjunct1]
  from t1 have r1: "ImportAPI_upload
       (\<lambda>token env query page.
          if query = ''name%3APizzaShack+version%3A1.0.0''
          then Inr (1, [\<lparr>SummaryID = ''7a2298c4''\<rparr>]) else Inr (0, []))
       ''token'' ''https://localhost:9443/api/am/admin/v1'' ''dev''
       \<lparr>ID = \<lparr>ProviderName = ''admin'', APIName = ''PizzaShack'', Version = ''1.0.0''\<rparr>,
         Context = ''/pizza/1.0.0'', ContextTemplate = ''/pizza/{version}'', Tags = Some [],
         URITemplates = Some ([] :: unit list), Implementation = ''ENDPOINT''\<rparr>
       ''/tmp/api-artifact.zip'' True False
     = Inr \<lparr>upEndpoint =
              ''https://localhost:9443/api/am/admin/v1/import/api?overwrite=true&preserveProvider=false'',
            upMethod = ''POST'', upFilePath = ''/tmp/api-artifact.zip'', upAccessToken = ''token'',
            upExtraParams = []\<rparr>"
    by (simp add: q1 FormatBool_def)
  from t2 have r2: "ImportAPI_upload
       (\<lambda>token env query page.
          if query = ''name%3APizzaShack+version%3A1.0.0''
          then Inr (1, [\<lparr>SummaryID = ''7a2298c4''\<rparr>]) else Inr (0, []))
       ''token'' ''https://localhost:9443/api/am/admin/v1'' ''dev''
       \<lparr>ID = \<lparr>ProviderName = ''admin'', APIName = ''PizzaShack'', Version = ''2.0.0''\<rparr>,
         Context = ''/pizza/2.0.0'', ContextTemplate = ''/pizza/{version}'', Tags = Some [],
         URITemplates = Some ([] :: unit list), Implementation = ''ENDPOINT''\<rparr>
       ''/tmp/api-artifact.zip'' True False
     = Inr \<lparr>upEndpoint =
              ''https://localhost:9443/api/am/admin/v1/import/api?preserveProvider=false'',
            upMethod = ''POST'', upFilePath = ''/tmp/api-artifact.zip'', upAccessToken = ''token'',
            upExtraParams = []\<rparr>"
    by (simp add: q2 FormatBool_def)
  note t3 = dispatch_create_or_update
    [where importAPIsUpdate = False and importAPIProductUpdate = True and importAPIs = False
       and GetAPIProductListFromEnv = "\<lambda>token env query page. Inl (Error ''connection refused'')"
       and T = "''APIProduct''"
       and token = "''token''" and adminEndpoint = "''https://localhost:9443/api/am/admin/v1''"
       and env = "''dev''"
       and p = "\<lparr>ProductID = \<lparr>ProductProviderName = ''admin'', APIProductName = ''Shop'',
                       ProductVersion = ''1.0.0''\<rparr>,
         ProductContext = ''/shop'', ProductContextTemplate = ''/shop'', ProductTags = Some []\<rparr>"
       and archive = "''/tmp/api-artifact.zip''" and pp = False
       and err' = "Error ''connection refused''",
      THEN conjunct2, THEN conjunct2, THEN conjunct2, THEN conjunct2, THEN conjunct1]
  from t3 have r3: "ImportAPIProduct_upload
       (\<lambda>token env query page. Inl (Error ''connection refused''))
       ''APIProduct'' ''token'' ''https://localhost:9443/api/am/admin/v1'' ''dev''
       \<lparr>ProductID = \<lparr>ProductProviderName = ''admin'', APIProductName = ''Shop'',
                       ProductVersion = ''1.0.0''\<rparr>,
         ProductContext = ''/shop'', ProductContextTemplate = ''/shop'', ProductTags = Some []\<rparr>
       ''/tmp/api-artifact.zip'' False False True False
     = Inl (Error ''connection refused'')"
    by simp
  from q1 r1 r2 r3 show ?thesis
    by (intro conjI)
qed

section \<open>Properties of the upload outcome\<close>

text \<open>
  Claim C2, as stated, fails: for the upload of an API a response with status 207 is an
  error, and the error carries the status line of the response, not its body.
\<close>

theorem upload_207_counterexample:
  "snd (importAPI acceptRequest answer207
          ''https://localhost:9443/api/am/admin/v1/import/api?preserveProvider=false''
          ''POST'' ''/tmp/api-artifact.zip'' ''token'' [])
   = Some (Error ''207 Multi-Status'')"
  by (simp add: importAPI_def acceptRequest_def answer207_def)

text \<open>
  Claim C2, amended. For the upload of an API or an API Product that reached the server,
  status 200 or 201 prints the success message and yields no error, and every other
  status, 207 included, yields an error: the error of reading the body, or else an error
  whose text is the status line of the response. Such a run prints the failure message and
  the status line, and, when the body could be read, the body, which is printed and not
  carried by the error. For the import of an Application whose response arrived, no status
  ends the command with an error: 200 and 201 print the success message, 207 prints a
  partial-import notice of its own, and the other statuses print a failure message.
\<close>

theorem upload_outcome:
  "(newFileUploadRequest endpoint verb params ''file'' archive token = Inr req
      \<and> clientDo req = Inr resp \<longrightarrow>
      (StatusCode resp = 200 \<or> StatusCode resp = 201 \<longrightarrow>
         importAPI newFileUploadRequest clientDo endpoint verb archive token params
           = (Println [''Successfully imported API''], None)
         \<and> importAPIProduct newFileUploadRequest clientDo endpoint verb archive token params
           = (Println [''Successfully imported API Product''], None))
      \<and> (StatusCode resp \<noteq> 200 \<and> StatusCode resp \<noteq> 201 \<longrightarrow>
         importAPI newFileUploadRequest clientDo endpoint verb archive token params
           = (Println [''Error importing API.''] @ Println [''Status: '' @ Status resp]
                @ (case Body resp of
                     Inl err \<Rightarrow> []
                   | Inr strBody \<Rightarrow> Println [''Response:'', strBody]),
              Some (case Body resp of Inl err \<Rightarrow> err | Inr strBody \<Rightarrow> Error (Status resp)))
         \<and> importAPIProduct newFileUploadRequest clientDo endpoint verb archive token params
           = (Println [''Error importing API Product.''] @ Println [''Status: '' @ Status resp]
                @ (case Body resp of
                     Inl err \<Rightarrow> []
                   | Inr strBody \<Rightarrow> Println [''Response:'', strBody]),
              Some (case Body resp of Inl err \<Rightarrow> err | Inr strBody \<Rightarrow> Error (Status resp)))))
   \<and> (GetOAuthAccessToken = Inr tok \<and> ImportApplicationToEnv tok = Inr aresp \<longrightarrow>
      snd (executeImportAppCmd GetOAuthAccessToken ImportApplicationToEnv) = None
      \<and> (StatusCode aresp = 200 \<or> StatusCode aresp = 201 \<longrightarrow>
           fst (executeImportAppCmd GetOAuthAccessToken ImportApplicationToEnv)
             = Println [''Successfully imported Application!''])
      \<and> (StatusCode aresp = 207 \<longrightarrow>
           fst (executeImportAppCmd GetOAuthAccessToken ImportApplicationToEnv)
             = [CHR 0x0A] @ ''Partially imported Application'' @ [CHR 0x0A]
               @ ''NOTE: One or more subscriptions were not imported due to ''
               @ ''unavailability of APIs/Tiers'' @ [CHR 0x0A])
      \<and> (StatusCode aresp \<notin> {200, 201, 207} \<longrightarrow>
           fst (executeImportAppCmd GetOAuthAccessToken ImportApplicationToEnv)
             = (if StatusCode aresp = 401
                then Println [''Invalid Credentials or You may not have enough permission!'']
                else if StatusCode aresp = 403
                then ''Invalid Owner!'' @ [CHR 0x0A]
                       @ ''NOTE: Cross Tenant Imports are not allowed!'' @ [CHR 0x0A]
                else Println [''Error importing Application''])))"
  by (auto simp: importAPI_def importAPIProduct_def executeImportAppCmd_def Let_def
           split: sum.splits)

theorem upload_outcome_witness:
  "importAPI (\<lambda>uri method params paramName path token. Inr ())
      (\<lambda>req. Inr \<lparr>StatusCode = 201, Status = ''201 Created'', Body = Inr []\<rparr>)
      ''https://localhost:9443/api/am/admin/v1/import/api?preserveProvider=false''
      ''POST'' ''/tmp/api-artifact.zip'' ''token'' []
     = (Println [''Successfully imported API''], None)
   \<and> importAPIProduct (\<lambda>uri method params paramName path token. Inr ())
      (\<lambda>req. Inr \<lparr>StatusCode = 409, Status = ''409 Conflict'', Body = Inr ''exists''\<rparr>)
      ''https://localhost:9443/api/am/admin/v1/import/api-product?preserveProvider=false''
      ''POST'' ''/tmp/api-artifact.zip'' ''token'' []
     = (''Error importing API Product.'' @ [CHR 0x0A] @ ''Status: 409 Conflict'' @ [CHR 0x0A]
          @ ''Response: exists'' @ [CHR 0x0A],
        Some (Error ''409 Conflict''))
   \<and> executeImportAppCmd (Inr ''token'')
        (\<lambda>tok. Inr \<lparr>StatusCode = 207, Status = ''207 Multi-Status'', Body = Inr []\<rparr>)
     = ([CHR 0x0A] @ ''Partially imported Application'' @ [CHR 0x0A]
          @ ''NOTE: One or more subscriptions were not imported due to ''
          @ ''unavailability of APIs/Tiers'' @ [CHR 0x0A], None)"
proof -
  note t1 = upload_outcome
    [where newFileUploadRequest = "\<lambda>uri method params paramName path token. Inr ()"
       and endpoint = "''https://localhost:9443/api/am/admin/v1/import/api?preserveProvider=false''"
       and verb = "''POST''" and params = "[]" and archive = "''/tmp/api-artifact.zip''"
       and token = "''token''" and req = "()"
       and clientDo = "\<lambda>req. Inr \<lparr>StatusCode = 201, Status = ''201 Created'', Body = Inr []\<rparr>"
       and resp = "\<lparr>StatusCode = 201, Status = ''201 Created'', Body = Inr []\<rparr>",
      THEN conjunct1]
  note t2 = upload_outcome
    [where newFileUploadRequest = "\<lambda>uri method params paramName path token. Inr ()"
       and endpoint =
         "''https://localhost:9443/api/am/admin/v1/import/api-product?preserveProvider=false''"
       and verb = "''POST''" and params = "[]" and archive = "''/tmp/api-artifact.zip''"
       and token = "''token''" and req = "()"
       and clientDo = "\<lambda>req. Inr \<lparr>StatusCode = 409, Status = ''409 Conflict'', Body = Inr ''exists''\<rparr>"
       and resp = "\<lparr>StatusCode = 409, Status = ''409 Conflict'', Body = Inr ''exists''\<rparr>",
      THEN conjunct1]
  note t3 = upload_outcome
    [where GetOAuthAccessToken = "Inr ''token''" and tok = "''token''"
       and ImportApplicationToEnv =
         "\<lambda>tok. Inr \<lparr>StatusCode = 207, Status = ''207 Multi-Status'', Body = Inr []\<rparr>"
       and aresp = "\<lparr>StatusCode = 207, Status = ''207 Multi-Status'', Body = Inr []\<rparr>",
      THEN conjunct2]
  from t1 have r1: "importAPI (\<lambda>uri method params paramName path token. Inr ())
      (\<lambda>req. Inr \<lparr>StatusCode = 201, Status = ''201 Created'', Body = Inr []\<rparr>)
      ''https://localhost:9443/api/am/admin/v1/import/api?preserveProvider=false''
      ''POST'' ''/tmp/api-artifact.zip'' ''token'' []
     = (Println [''Successfully imported API''], None)"
    by simp
  from t2 have r2: "importAPIProduct (\<lambda>uri method params paramName path token. Inr ())
      (\<lambda>req. Inr \<lparr>StatusCode = 409, Status = ''409 Conflict'', Body = Inr ''exists''\<rparr>)
      ''https://localhost:9443/api/am/admin/v1/import/api-product?preserveProvider=false''
      ''POST'' ''/tmp/api-artifact.zip'' ''token'' []
     = (''Error importing API Product.'' @ [CHR 0x0A] @ ''Status: 409 Conflict'' @ [CHR 0x0A]
          @ ''Response: exists'' @ [CHR 0x0A],
        Some (Error ''409 Conflict''))"
    by (simp add: Println_def)
  from t3 have r3: "executeImportAppCmd (Inr ''token'')
        (\<lambda>tok. Inr \<lparr>StatusCode = 207, Status = ''207 Multi-Status'', Body = Inr []\<rparr>)
     = ([CHR 0x0A] @ ''Partially imported Application'' @ [CHR 0x0A]
          @ ''NOTE: One or more subscriptions were not imported due to ''
          @ ''unavailability of APIs/Tiers'' @ [CHR 0x0A], None)"
    by (simp add: prod_eq_iff)
  from r1 r2 r3 show ?thesis
    by (intro conjI)
qed

section \<open>Properties of the merge and of the pre-processing\<close>

lemma gabs_SetP_key_Inr:
  assumes "CHR ''.'' \<notin> set k" "gabs_SetP g v k = Inr g'"
  shows "\<exists>kvs. asMap g = Some kvs \<and> g' = JObj (AList.update k v kvs)"
  using assms
  by (auto simp: gabs_SetP_def SplitDot_nodot asMap_def split: json.splits if_splits)

text \<open>A write into a document that is neither a map nor \<^verbatim>\<open>nil\<close> collides.\<close>

lemma gabs_SetP_collision:
  assumes "asMap g = None"
  shows "gabs_SetP g v (c # cs) = Inl ErrPathCollision"
proof -
  obtain k ks where "SplitDot (c # cs) = k # ks"
    by (cases "SplitDot (c # cs)") (auto split: if_splits list.splits)
  with assms show ?thesis
    by (auto simp: gabs_SetP_def asMap_def split: json.splits)
qed

text \<open>The security parameters change no field but their own four.\<close>

lemma setEndpointSecurityType_frame:
  assumes "setEndpointSecurityType p (JObj kvs) = (None, api')" "k \<noteq> ''endpointAuthDigest''"
  shows "\<exists>kvs'. api' = JObj kvs' \<and> map_of kvs' k = map_of kvs k"
  using assms
  by (auto simp: setEndpointSecurityType_def gabs_SetP_key asMap_JObj update_conv' split: if_splits)

lemma setSecurityEndpointsParams_frame:
  assumes "setSecurityEndpointsParams p (JObj kvs) = (None, api')"
    "k \<noteq> ''endpointAuthDigest''" "k \<noteq> ''endpointUTUsername''" "k \<noteq> ''endpointUTPassword''"
  shows "\<exists>kvs'. api' = JObj kvs' \<and> map_of kvs' k = map_of kvs k"
proof -
  from assms(1) have n: "Username p \<noteq> []" "Password p \<noteq> []" "Type p \<noteq> []"
    by (auto simp: setSecurityEndpointsParams_def split: if_splits)
  from assms(1) have "setEndpointSecurityType p
      (JObj (AList.update ''endpointUTPassword'' (JStr (Password p))
              (AList.update ''endpointUTUsername'' (JStr (Username p)) kvs))) = (None, api')"
    unfolding setSecurity_ok [OF n] .
  from setEndpointSecurityType_frame [OF this assms(2)] assms(3,4) show ?thesis
    by (auto simp: update_conv')
qed

lemma handleSecurity_frame:
  assumes "handleSecurityEndpointsParams sec (JObj kvs) = (None, api')"
    "k \<noteq> ''endpointSecured''"
    "k \<noteq> ''endpointAuthDigest''" "k \<noteq> ''endpointUTUsername''" "k \<noteq> ''endpointUTPassword''"
  shows "\<exists>kvs'. api' = JObj kvs' \<and> map_of kvs' k = map_of kvs k"
proof (cases sec)
  case None
  with assms show ?thesis
    by (auto simp: handleSecurityEndpointsParams_def)
next
  case (Some p)
  show ?thesis
  proof (cases "Enabled p = []")
    case True
    with Some assms show ?thesis
      by (auto simp: handleSecurityEndpointsParams_def)
  next
    case False
    show ?thesis
    proof (cases "ParseBool (Enabled p)")
      case (Inl e)
      with Some False assms show ?thesis
        by (simp add: handleSecurityEndpointsParams_def)
    next
      case (Inr b)
      show ?thesis
      proof (cases b)
        case True
        with Inr have "ParseBool (Enabled p) = Inr True"
          by simp
        from handleSecurity_true [OF this asMap_JObj] assms(1) Some
        have "setSecurityEndpointsParams p
                (JObj (AList.update ''endpointSecured'' (JBool True) kvs)) = (None, api')"
          by simp
        from setSecurityEndpointsParams_frame [OF this assms(3,4,5)] assms(2)
        show ?thesis
          by (auto simp: update_conv')
      next
        case f: False
        with Inr Some False assms show ?thesis
          by (auto simp: handleSecurityEndpointsParams_def gabs_SetP_key asMap_JObj update_conv')
      qed
    qed
  qed
qed

text \<open>A merge that succeeds has passed every step, and its one write is the last of them.\<close>

lemma mergeAPI_success:
  assumes "mergeAPI L w dir env = (None, w')"
  shows "\<exists>fp jsonContent api0 apiEndpointData configData merged api1 api2 api3 content.
        resolveYamlOrJson L w (Join [dir, ''Meta-information'', ''api'']) = Inr (fp, jsonContent)
        \<and> ParseJSON L jsonContent = Inr api0
        \<and> ExtractAPIEndpointConfig L (Bytes L api0) = Inr apiEndpointData
        \<and> Marshal L (Endpoints env) = Inr configData
        \<and> MergeJSON L apiEndpointData configData = Inr merged
        \<and> gabs_SetP api0 (JStr merged) ''endpointConfig'' = Inr api1
        \<and> (case GatewayEnvironments env of
              None \<Rightarrow> Inr api1
            | Some envs \<Rightarrow> gabs_SetP api1 (JArr (map JStr envs)) ''environments'') = Inr api2
        \<and> handleSecurityEndpointsParams (Security env) api2 = (None, api3)
        \<and> JsonToYaml L (Bytes L api3) = Inr content
        \<and> w' = w\<lparr>files := (files w)(Join [dir, ''Meta-information'', ''api.yaml'']
                                         \<mapsto> File content)\<rparr>"
  using assms unfolding mergeAPI_def Let_def WriteFile_def
  by (simp del: Join.simps split: sum.splits prod.splits option.splits if_splits)



text \<open>After the first two writes into the container, the container is a map.\<close>

lemma merged_container_is_map:
  assumes "gabs_SetP api0 (JStr merged) ''endpointConfig'' = Inr api1"
    "(case gw of
        None \<Rightarrow> Inr api1
      | Some envs \<Rightarrow> gabs_SetP api1 (JArr (map JStr envs)) ''environments'') = Inr api2"
  shows "\<exists>kvs. api2 = JObj kvs \<and> map_of kvs ''endpointConfig'' = Some (JStr merged)"
proof -
  from gabs_SetP_key_Inr [OF _ assms(1)]
  obtain kvs0 where 1: "api1 = JObj (AList.update ''endpointConfig'' (JStr merged) kvs0)"
    by auto
  show ?thesis
  proof (cases gw)
    case None
    with assms(2) 1 show ?thesis
      by (auto simp: update_conv')
  next
    case (Some envs)
    with assms(2) have "gabs_SetP api1 (JArr (map JStr envs)) ''environments'' = Inr api2"
      by simp
    from gabs_SetP_key_Inr [OF _ this] 1 show ?thesis
      by (auto simp: asMap_def update_conv')
  qed
qed


text \<open>The example run: its paths, its collaborators, its merge and its certificate step.\<close>

lemma example_paths:
  "Join [''/tmp/apim/PizzaShack'', ''Meta-information'', ''api'']
     = ''/tmp/apim/PizzaShack/Meta-information/api''"
  "Join [''/tmp/apim/PizzaShack'', ''Meta-information'', ''api.yaml'']
     = ''/tmp/apim/PizzaShack/Meta-information/api.yaml''"
  "Join [''/tmp/apim/PizzaShack'', ''certs/backend.pem'']
     = ''/tmp/apim/PizzaShack/certs/backend.pem''"
  "Clean ''certs/backend.pem'' = ''certs/backend.pem''"
  by (simp_all add: Clean_def endOrSlash_def)

lemma example_resolve:
  fixes w :: world
  assumes "files w = files exampleWorld" "readFails w = readFails exampleWorld"
  shows "resolveYamlOrJson exampleLib w ''/tmp/apim/PizzaShack/Meta-information/api''
     = Inr (''/tmp/apim/PizzaShack/Meta-information/api.yaml'', ''name: PizzaShack'')"
  using assms
  by (simp add: resolveYamlOrJson_def exampleLib_def exampleWorld_def isRegularFile_def
        ReadFile_def)

lemma example_lib:
  "ParseJSON exampleLib ''name: PizzaShack''
     = Inr (JObj [(''name'', JStr ''PizzaShack''),
                  (''productionUrl'', JStr ''http://localhost:8080/pizza'')])"
  "ParseJSON exampleLib endpointTypeHttp = Inr (JObj [(''endpoint_type'', JStr ''http'')])"
  "ExtractAPIEndpointConfig exampleLib b = Inr []"
  "Marshal exampleLib s = Inr s"
  "MergeJSON exampleLib first second = Inr second"
  "JsonToYaml exampleLib s = Inr s"
  "Bytes exampleLib (JObj kvs) = ''{'' @ strings_Join (map fst kvs) '','' @ ''}''"
  by (simp_all add: exampleLib_def endpointTypeHttp_def)






text \<open>
  The pre-processing of a definition without \<^verbatim>\<open>endpointConfig\<close>: the configuration
  it builds from the legacy fields, and the document it writes.
\<close>

lemma preProcessAPI_legacy:
  assumes r: "resolveYamlOrJson L w (Join [dir, ''Meta-information'', ''api''])
                = Inr (apiPath, jsonData)"
    and q: "ParseJSON L jsonData = Inr legacy"
    and k: "asMap legacy = Some kvs"
    and n: "map_of kvs ''endpointConfig'' = None"
    and h: "ParseJSON L endpointTypeHttp = Inr (JObj [(''endpoint_type'', JStr ''http'')])"
  shows "preProcessAPI L w dir =
     (case JsonToYaml L (Bytes L (JObj (AList.update ''endpointConfig''
             (JStr (Bytes L (JObj
                ([(''endpoint_type'', JStr ''http'')]
                 @ (case map_of kvs ''productionUrl'' of
                      None \<Rightarrow> []
                    | Some u \<Rightarrow>
                        [(''production_endpoints'',
                          JObj [(''url'', u), (''config'', JStr ''null'')])])
                 @ (case map_of kvs ''sandboxUrl'' of
                      None \<Rightarrow> []
                    | Some u \<Rightarrow>
                        [(''sandbox_endpoints'',
                          JObj [(''url'', u), (''config'', JStr ''null'')])])))))
             (AList.delete ''sandboxUrl'' (AList.delete ''productionUrl'' kvs))))) of
        Inl err \<Rightarrow> (Some err, w)
      | Inr content \<Rightarrow> WriteFile w (Join [dir, ''Meta-information'', ''api.yaml'']) content)"
proof -
  have absent: "AList.delete key al = al" if "map_of al key = None"
    for key :: string and al :: "(string \<times> json) list"
    using that by (simp add: map_of_eq_None_iff)
  from k consider "legacy = JNull" "kvs = []" | "legacy = JObj kvs"
    by (auto simp: asMap_def split: json.splits)
  then show ?thesis
  proof cases
    case 1
    then show ?thesis
      unfolding preProcessAPI_def Let_def r
      by (simp add: q h gabs_Exists_def gabs_SetP_def del: Join.simps)
  next
    case 2
    show ?thesis
    proof (cases "map_of kvs ''productionUrl''")
      case None
      note p = this
      show ?thesis
      proof (cases "map_of kvs ''sandboxUrl''")
        case None
        with p 2 n show ?thesis
          unfolding preProcessAPI_def Let_def r
          by (simp add: q h gabs_Exists_def gabs_SetP_def absent del: Join.simps)
      next
        case (Some u)
        with p 2 n show ?thesis
          unfolding preProcessAPI_def Let_def r
          by (simp add: q h gabs_Exists_def gabs_SetP_def gabs_Path_Data_def absent
                del: Join.simps)
      qed
    next
      case (Some v)
      note p = this
      show ?thesis
      proof (cases "map_of kvs ''sandboxUrl''")
        case None
        with p 2 n show ?thesis
          unfolding preProcessAPI_def Let_def r
          by (simp add: q h gabs_Exists_def gabs_SetP_def gabs_Path_Data_def absent
                delete_conv' del: Join.simps)
      next
        case (Some u)
        with p 2 n show ?thesis
          unfolding preProcessAPI_def Let_def r
          by (simp add: q h gabs_Exists_def gabs_SetP_def gabs_Path_Data_def absent
                delete_conv' del: Join.simps)
      qed
    qed
  qed
qed

text \<open>
  Claim C9. After a successful merge the definition file holds the document that the
  merge built, and the field \<open>endpointConfig\<close> of that document is a JSON string, not a
  subtree: the text that \<open>MergeJSON\<close> returned for the endpoint configuration of the
  definition and the endpoints of the parameters. After a successful pre-processing of a
  definition without \<open>endpointConfig\<close> the definition file holds the definition without
  its legacy fields and with the field \<open>endpointConfig\<close>, a JSON string: the encoding of
  the configuration of type \<^verbatim>\<open>http\<close> whose production and sandbox blocks hold the
  values of \<open>productionUrl\<close> and \<open>sandboxUrl\<close>, each block being there when the legacy
  field is.
\<close>

theorem endpoint_config_is_string:
  "(mergeAPI L w dir env = (None, w')
      \<and> resolveYamlOrJson L w (Join [dir, ''Meta-information'', ''api'']) = Inr (fp, jsonContent)
      \<and> ParseJSON L jsonContent = Inr api0
      \<and> ExtractAPIEndpointConfig L (Bytes L api0) = Inr apiEndpointData
      \<and> Marshal L (Endpoints env) = Inr configData
      \<and> MergeJSON L apiEndpointData configData = Inr merged \<longrightarrow>
      (\<exists>api1 api2 api content.
         gabs_SetP api0 (JStr merged) ''endpointConfig'' = Inr api1
         \<and> (case GatewayEnvironments env of
               None \<Rightarrow> Inr api1
             | Some envs \<Rightarrow> gabs_SetP api1 (JArr (map JStr envs)) ''environments'') = Inr api2
         \<and> handleSecurityEndpointsParams (Security env) api2 = (None, api)
         \<and> JsonToYaml L (Bytes L api) = Inr content
         \<and> files w' (Join [dir, ''Meta-information'', ''api.yaml'']) = Some (File content)
         \<and> gabs_Search api [''endpointConfig''] = Some (JStr merged)))
   \<and> (preProcessAPI L w dir = (None, w'')
        \<and> resolveYamlOrJson L w (Join [dir, ''Meta-information'', ''api''])
            = Inr (apiPath, jsonData)
        \<and> ParseJSON L jsonData = Inr legacy
        \<and> asMap legacy = Some kvs
        \<and> map_of kvs ''endpointConfig'' = None
        \<and> ParseJSON L endpointTypeHttp = Inr (JObj [(''endpoint_type'', JStr ''http'')]) \<longrightarrow>
      (\<exists>conf api content.
         conf = JObj
           ([(''endpoint_type'', JStr ''http'')]
            @ (case map_of kvs ''productionUrl'' of
                 None \<Rightarrow> []
               | Some u \<Rightarrow>
                   [(''production_endpoints'',
                     JObj [(''url'', u), (''config'', JStr ''null'')])])
            @ (case map_of kvs ''sandboxUrl'' of
                 None \<Rightarrow> []
               | Some u \<Rightarrow>
                   [(''sandbox_endpoints'',
                     JObj [(''url'', u), (''config'', JStr ''null'')])]))
         \<and> api = JObj (AList.update ''endpointConfig'' (JStr (Bytes L conf))
                         (AList.delete ''sandboxUrl'' (AList.delete ''productionUrl'' kvs)))
         \<and> JsonToYaml L (Bytes L api) = Inr content
         \<and> files w'' (Join [dir, ''Meta-information'', ''api.yaml'']) = Some (File content)
         \<and> gabs_Search api [''endpointConfig''] = Some (JStr (Bytes L conf))))"
proof (intro conjI impI; elim conjE)
  assume m: "mergeAPI L w dir env = (None, w')"
    and h: "resolveYamlOrJson L w (Join [dir, ''Meta-information'', ''api'']) = Inr (fp, jsonContent)"
      "ParseJSON L jsonContent = Inr api0"
      "ExtractAPIEndpointConfig L (Bytes L api0) = Inr apiEndpointData"
      "Marshal L (Endpoints env) = Inr configData"
      "MergeJSON L apiEndpointData configData = Inr merged"
  from mergeAPI_success [OF m] h
  obtain api1 api2 api3 content where
    2: "gabs_SetP api0 (JStr merged) ''endpointConfig'' = Inr api1"
      "(case GatewayEnvironments env of
            None \<Rightarrow> Inr api1
          | Some envs \<Rightarrow> gabs_SetP api1 (JArr (map JStr envs)) ''environments'') = Inr api2"
    and 3: "handleSecurityEndpointsParams (Security env) api2 = (None, api3)"
    and 4: "JsonToYaml L (Bytes L api3) = Inr content"
      "w' = w\<lparr>files := (files w)(Join [dir, ''Meta-information'', ''api.yaml'']
                                      \<mapsto> File content)\<rparr>"
    by (auto simp del: Join.simps)
  from merged_container_is_map [OF 2] obtain kvs0 where
    k: "api2 = JObj kvs0" "map_of kvs0 ''endpointConfig'' = Some (JStr merged)"
    by blast
  from handleSecurity_frame [OF 3 [unfolded k(1)], of "''endpointConfig''"] k(2)
  obtain kvs' where k': "api3 = JObj kvs'" "map_of kvs' ''endpointConfig'' = Some (JStr merged)"
    by auto
  have "gabs_Search api3 [''endpointConfig''] = Some (JStr merged)"
    unfolding k'(1) by (simp add: k'(2))
  moreover have "files w' (Join [dir, ''Meta-information'', ''api.yaml'']) = Some (File content)"
    unfolding 4(2) by (simp del: Join.simps)
  ultimately show "\<exists>api1 api2 api content.
         gabs_SetP api0 (JStr merged) ''endpointConfig'' = Inr api1
         \<and> (case GatewayEnvironments env of
               None \<Rightarrow> Inr api1
             | Some envs \<Rightarrow> gabs_SetP api1 (JArr (map JStr envs)) ''environments'') = Inr api2
         \<and> handleSecurityEndpointsParams (Security env) api2 = (None, api)
         \<and> JsonToYaml L (Bytes L api) = Inr content
         \<and> files w' (Join [dir, ''Meta-information'', ''api.yaml'']) = Some (File content)
         \<and> gabs_Search api [''endpointConfig''] = Some (JStr merged)"
    using 2 3 4(1) by blast
next
  assume m: "preProcessAPI L w dir = (None, w'')"
    and r: "resolveYamlOrJson L w (Join [dir, ''Meta-information'', ''api''])
            = Inr (apiPath, jsonData)"
    and q: "ParseJSON L jsonData = Inr legacy"
    and k: "asMap legacy = Some kvs"
    and n: "map_of kvs ''endpointConfig'' = None"
    and h: "ParseJSON L endpointTypeHttp = Inr (JObj [(''endpoint_type'', JStr ''http'')])"
  define conf where "conf = JObj
           ([(''endpoint_type'', JStr ''http'')]
            @ (case map_of kvs ''productionUrl'' of
                 None \<Rightarrow> []
               | Some u \<Rightarrow>
                   [(''production_endpoints'',
                     JObj [(''url'', u), (''config'', JStr ''null'')])])
            @ (case map_of kvs ''sandboxUrl'' of
                 None \<Rightarrow> []
               | Some u \<Rightarrow>
                   [(''sandbox_endpoints'',
                     JObj [(''url'', u), (''config'', JStr ''null'')])]))"
  define api where "api = JObj (AList.update ''endpointConfig'' (JStr (Bytes L conf))
                         (AList.delete ''sandboxUrl'' (AList.delete ''productionUrl'' kvs)))"
  from m have "(case JsonToYaml L (Bytes L api) of
        Inl err \<Rightarrow> (Some err, w)
      | Inr content \<Rightarrow> WriteFile w (Join [dir, ''Meta-information'', ''api.yaml'']) content)
      = (None, w'')"
    unfolding preProcessAPI_legacy [OF r q k n h] api_def conf_def .
  then obtain content where
    c: "JsonToYaml L (Bytes L api) = Inr content"
      "w'' = w\<lparr>files := (files w)(Join [dir, ''Meta-information'', ''api.yaml'']
                                       \<mapsto> File content)\<rparr>"
    by (auto simp: WriteFile_def simp del: Join.simps split: sum.splits if_splits option.splits)
  have "files w'' (Join [dir, ''Meta-information'', ''api.yaml'']) = Some (File content)"
    unfolding c(2) by (simp del: Join.simps)
  moreover have "gabs_Search api [''endpointConfig''] = Some (JStr (Bytes L conf))"
    unfolding api_def by (simp add: update_conv')
  ultimately show "\<exists>conf api content.
         conf = JObj
           ([(''endpoint_type'', JStr ''http'')]
            @ (case map_of kvs ''productionUrl'' of
                 None \<Rightarrow> []
               | Some u \<Rightarrow>
                   [(''production_endpoints'',
                     JObj [(''url'', u), (''config'', JStr ''null'')])])
            @ (case map_of kvs ''sandboxUrl'' of
                 None \<Rightarrow> []
               | Some u \<Rightarrow>
                   [(''sandbox_endpoints'',
                     JObj [(''url'', u), (''config'', JStr ''null'')])]))
         \<and> api = JObj (AList.update ''endpointConfig'' (JStr (Bytes L conf))
                         (AList.delete ''sandboxUrl'' (AList.delete ''productionUrl'' kvs)))
         \<and> JsonToYaml L (Bytes L api) = Inr content
         \<and> files w'' (Join [dir, ''Meta-information'', ''api.yaml'']) = Some (File content)
         \<and> gabs_Search api [''endpointConfig''] = Some (JStr (Bytes L conf))"
    using c(1) api_def conf_def by blast
qed

theorem endpoint_config_is_string_witness:
  "mergeAPI exampleLib exampleWorld ''/tmp/apim/PizzaShack''
     \<lparr>Endpoints = ''{}'', GatewayEnvironments = Some [''Production and Sandbox''],
       Security = None, Certs = ([] :: Cert list)\<rparr>
   = (None, exampleWorld
        \<lparr>files := (files exampleWorld)
           (''/tmp/apim/PizzaShack/Meta-information/api.yaml''
              \<mapsto> File ''{name,productionUrl,endpointConfig,environments}'')\<rparr>)
   \<and> (\<exists>api.
        Bytes exampleLib api = ''{name,productionUrl,endpointConfig,environments}''
        \<and> gabs_Search api [''endpointConfig''] = Some (JStr ''{}''))
   \<and> preProcessAPI exampleLib exampleWorld ''/tmp/apim/PizzaShack''
   = (None, exampleWorld
        \<lparr>files := (files exampleWorld)
           (''/tmp/apim/PizzaShack/Meta-information/api.yaml''
              \<mapsto> File ''{name,endpointConfig}'')\<rparr>)
   \<and> gabs_Search
       (JObj [(''name'', JStr ''PizzaShack''),
              (''endpointConfig'',
               JStr (Bytes exampleLib
                 (JObj [(''endpoint_type'', JStr ''http''),
                        (''production_endpoints'',
                         JObj [(''url'', JStr ''http://localhost:8080/pizza''),
                               (''config'', JStr ''null'')])])))])
       [''endpointConfig'']
     = Some (JStr (Bytes exampleLib
         (JObj [(''endpoint_type'', JStr ''http''),
                (''production_endpoints'',
                 JObj [(''url'', JStr ''http://localhost:8080/pizza''),
                       (''config'', JStr ''null'')])])))"
proof -
  have m: "mergeAPI exampleLib exampleWorld ''/tmp/apim/PizzaShack''
     \<lparr>Endpoints = ''{}'', GatewayEnvironments = Some [''Production and Sandbox''],
       Security = None, Certs = ([] :: Cert list)\<rparr>
   = (None, exampleWorld
        \<lparr>files := (files exampleWorld)
           (''/tmp/apim/PizzaShack/Meta-information/api.yaml''
              \<mapsto> File ''{name,productionUrl,endpointConfig,environments}'')\<rparr>)"
    unfolding mergeAPI_def Let_def example_paths
    by (simp add: example_resolve example_lib gabs_SetP_def handleSecurityEndpointsParams_def
        WriteFile_def exampleWorld_def)
  have pp: "preProcessAPI exampleLib exampleWorld ''/tmp/apim/PizzaShack''
   = (None, exampleWorld
        \<lparr>files := (files exampleWorld)
           (''/tmp/apim/PizzaShack/Meta-information/api.yaml''
              \<mapsto> File ''{name,endpointConfig}'')\<rparr>)"
    unfolding preProcessAPI_def Let_def example_paths
    by (simp add: example_resolve example_lib gabs_SetP_def gabs_Exists_def gabs_Path_Data_def
        WriteFile_def exampleWorld_def)
  note t = endpoint_config_is_string
    [where L = exampleLib and w = exampleWorld and dir = "''/tmp/apim/PizzaShack''"
       and env = "\<lparr>Endpoints = ''{}'', GatewayEnvironments = Some [''Production and Sandbox''],
                    Security = None, Certs = ([] :: Cert list)\<rparr>"
       and w' = "exampleWorld
        \<lparr>files := (files exampleWorld)
           (''/tmp/apim/PizzaShack/Meta-information/api.yaml''
              \<mapsto> File ''{name,productionUrl,endpointConfig,environments}'')\<rparr>"
       and w'' = "exampleWorld
        \<lparr>files := (files exampleWorld)
           (''/tmp/apim/PizzaShack/Meta-information/api.yaml''
              \<mapsto> File ''{name,endpointConfig}'')\<rparr>"
       and fp = "''/tmp/apim/PizzaShack/Meta-information/api.yaml''"
       and jsonContent = "''name: PizzaShack''"
       and ?api0.0 = "JObj [(''name'', JStr ''PizzaShack''),
                   (''productionUrl'', JStr ''http://localhost:8080/pizza'')]"
       and apiEndpointData = "[]" and configData = "''{}''" and merged = "''{}''"
       and apiPath = "''/tmp/apim/PizzaShack/Meta-information/api.yaml''"
       and jsonData = "''name: PizzaShack''"
       and legacy = "JObj [(''name'', JStr ''PizzaShack''),
                   (''productionUrl'', JStr ''http://localhost:8080/pizza'')]"
       and kvs = "[(''name'', JStr ''PizzaShack''),
                   (''productionUrl'', JStr ''http://localhost:8080/pizza'')]"]
  from t [THEN conjunct1] m
  have r1: "\<exists>api.
        Bytes exampleLib api = ''{name,productionUrl,endpointConfig,environments}''
        \<and> gabs_Search api [''endpointConfig''] = Some (JStr ''{}'')"
    by (auto simp: example_paths example_resolve example_lib
             simp del: gabs_Search.simps Join.simps)
  from t [THEN conjunct2] pp
  have r2: "gabs_Search
       (JObj [(''name'', JStr ''PizzaShack''),
              (''endpointConfig'',
               JStr (Bytes exampleLib
                 (JObj [(''endpoint_type'', JStr ''http''),
                        (''production_endpoints'',
                         JObj [(''url'', JStr ''http://localhost:8080/pizza''),
                               (''config'', JStr ''null'')])])))])
       [''endpointConfig'']
     = Some (JStr (Bytes exampleLib
         (JObj [(''endpoint_type'', JStr ''http''),
                (''production_endpoints'',
                 JObj [(''url'', JStr ''http://localhost:8080/pizza''),
                       (''config'', JStr ''null'')])])))"
    by (auto simp: example_paths example_resolve example_lib asMap_def
             simp del: gabs_Search.simps Join.simps)
  from m r1 pp r2 show ?thesis
    by (intro conjI)
qed

end
